theory Spec2Isabelle
  imports Complex_Main "HOL-Library.Sublist"
begin

section \<open>Decoded JSON values and the field helpers\<close>

text \<open>
  The commands work on decoded JSON: Go's \<^verbatim>\<open>interface{}\<close> holding \<^verbatim>\<open>nil\<close>, a
  \<^verbatim>\<open>bool\<close>, a \<^verbatim>\<open>float64\<close> (every JSON number is decoded to one), an \<^verbatim>\<open>int\<close>, a
  \<^verbatim>\<open>string\<close>, a \<^verbatim>\<open>[]interface{}\<close> or a \<^verbatim>\<open>map[string]interface{}\<close>. A map is kept
  as an association list that is read with \<open>map_of\<close>. A \<^verbatim>\<open>float64\<close> is kept as the
  rational number it denotes: decoding JSON gives neither an infinity nor a NaN.
\<close>

datatype json =
    JNull
  | JBool bool
  | JNum rat
  | JInt int
  | JStr string
  | JArr "json list"
  | JObj "(string \<times> json) list"

abbreviation dq :: char where "dq \<equiv> CHR 0x22"
abbreviation sq :: char where "sq \<equiv> CHR 0x27"

definition getStringField :: "(string \<times> json) list \<Rightarrow> string \<Rightarrow> string" where
  "getStringField m key = (case map_of m key of Some (JStr v) \<Rightarrow> v | _ \<Rightarrow> [])"

text \<open>
  The conversion \<^verbatim>\<open>int(v)\<close> of a \<^verbatim>\<open>float64\<close>: the fraction is dropped, towards zero.
  For a value outside the 64 bits of \<^verbatim>\<open>int\<close> the language leaves the result to the
  implementation; it is the least \<^verbatim>\<open>int\<close> here, as on amd64.
\<close>

definition goInt :: "rat \<Rightarrow> int" where
  "goInt v =
     (let t = (if v < 0 then \<lceil>v\<rceil> else \<lfloor>v\<rfloor>)
      in if - (2 ^ 63) \<le> t \<and> t < 2 ^ 63 then t else - (2 ^ 63))"

definition getIntField :: "(string \<times> json) list \<Rightarrow> string \<Rightarrow> int" where
  "getIntField m key =
     (case map_of m key of Some (JNum v) \<Rightarrow> goInt v | Some (JInt v) \<Rightarrow> v | _ \<Rightarrow> 0)"

definition getBoolField :: "(string \<times> json) list \<Rightarrow> string \<Rightarrow> bool" where
  "getBoolField m key = (case map_of m key of Some (JBool v) \<Rightarrow> v | _ \<Rightarrow> False)"

section \<open>Pseudo columns\<close>

record pseudoColumn =
  ID :: string
  Name :: string
  Kind :: string








section \<open>The attachment reference parser\<close>

record Attachment =
  Index :: int
  Filename :: string
  ContentType :: string
  Filesize :: int
  Width :: int
  Height :: int
  DownloadURL :: string
  SGID :: string

text \<open>
  Strings are byte lists. Every character the patterns below name is ASCII, and a
  negated class or a dot consumes a whole UTF-8 sequence (or one invalid byte), so
  matching byte by byte finds the same matches as matching rune by rune.
\<close>

text \<open>The first occurrence of \<open>sep\<close>: the text before it and the text after it.\<close>

fun cutFirst :: "string \<Rightarrow> string \<Rightarrow> (string \<times> string) option" where
  "cutFirst sep [] = (if sep = [] then Some ([], []) else None)"
| "cutFirst sep (c # cs) =
     (if prefix sep (c # cs) then Some ([], drop (length sep) (c # cs))
      else (case cutFirst sep cs of None \<Rightarrow> None | Some (b, a) \<Rightarrow> Some (c # b, a)))"

text \<open>The class \<^verbatim>\<open>\s\<close> of Go's regexp: tab, newline, form feed, carriage return, space.\<close>

definition isSpace :: "char \<Rightarrow> bool" where
  "isSpace c = (c = CHR 0x09 \<or> c = CHR 0x0A \<or> c = CHR 0x0C \<or> c = CHR 0x0D \<or> c = CHR 0x20)"

definition openTag :: string where
  "openTag = ''<action-text-attachment''"

definition closeTag :: string where
  "closeTag = ''</action-text-attachment>''"

text \<open>
  One match of
  \<^verbatim>\<open>(?s)<action-text-attachment\s+([^>]+)>(.*?)</action-text-attachment>\<close>
  anchored at the start of \<open>s\<close>: the two groups and the text after the match. Go's
  regexp returns the match a backtracking engine finds first:
  \<^item> \<^verbatim>\<open>\s+\<close> takes the whole run of white space, \<^verbatim>\<open>[^>]+\<close> everything up to the next
    \<^verbatim>\<open>></\<close>\<open>;\<close> giving white space back only moves the start of group 1 and never the
    \<^verbatim>\<open>></\<close>\<open>,\<close> so it helps in one case only: the run is followed by \<^verbatim>\<open>></\<close> at once,
    and then group 1 is the last of at least two white-space characters;
  \<^item> the lazy \<^verbatim>\<open>(.*?)\<close> (with \<^verbatim>\<open>(?s)\<close> the dot crosses newlines) stops at the first
    closing tag.
\<close>

definition matchAttachmentAt :: "string \<Rightarrow> (string \<times> string \<times> string) option" where
  "matchAttachmentAt s =
     (if \<not> prefix openTag s then None
      else
        let r = drop (length openTag) s;
            ws = takeWhile isSpace r;
            after = dropWhile isSpace r
        in if ws = [] then None
           else (case after of
                   [] \<Rightarrow> None
                 | c # cs \<Rightarrow>
                     if c = CHR ''>'' then
                       (if length ws < 2 then None
                        else (case cutFirst closeTag cs of
                                None \<Rightarrow> None
                              | Some (content, rest) \<Rightarrow> Some ([last ws], content, rest)))
                     else
                       (case dropWhile (\<lambda>x. x \<noteq> CHR ''>'') after of
                          [] \<Rightarrow> None
                        | g # r3 \<Rightarrow>
                            (case cutFirst closeTag r3 of
                               None \<Rightarrow> None
                             | Some (content, rest) \<Rightarrow>
                                 Some (takeWhile (\<lambda>x. x \<noteq> CHR ''>'') after, content, rest)))))"

lemma cutFirst_length: "cutFirst sep s = Some (b, a) \<Longrightarrow> length b + length sep + length a = length s"
proof (induction s arbitrary: b)
  case Nil
  then show ?case by (simp split: if_splits)
next
  case (Cons c cs)
  show ?case
  proof (cases "prefix sep (c # cs)")
    case True
    with Cons.prems have "b = []" and "a = drop (length sep) (c # cs)" by simp_all
    moreover from True have "length sep \<le> length (c # cs)" by (rule prefix_length_le)
    ultimately show ?thesis by simp
  next
    case False
    with Cons.prems obtain b' where c: "cutFirst sep cs = Some (b', a)" and b: "b = c # b'"
      by (auto split: option.splits)
    from Cons.IH [OF c] b show ?thesis by simp
  qed
qed

lemma matchAttachmentAt_shorter:
  assumes "matchAttachmentAt s = Some (attrs, content, rest)"
  shows "length rest < length s"
proof -
  from assms have p: "prefix openTag s"
    by (auto simp: matchAttachmentAt_def split: if_splits)
  define r where "r = drop (length openTag) s"
  from p have ls: "length s = length openTag + length r"
    by (auto simp: r_def prefix_def)
  have lr: "length (dropWhile isSpace r) \<le> length r"
    by (rule length_dropWhile_le)
  from assms p obtain c cs where a: "dropWhile isSpace r = c # cs"
    by (auto simp: matchAttachmentAt_def Let_def r_def split: if_splits list.splits)
  show ?thesis
  proof (cases "c = CHR ''>''")
    case True
    with assms p a obtain b where "cutFirst closeTag cs = Some (b, rest)"
      by (auto simp: matchAttachmentAt_def Let_def r_def split: if_splits option.splits)
    from cutFirst_length [OF this] have "length rest \<le> length cs" by simp
    with a lr ls show ?thesis by simp
  next
    case False
    with assms p a obtain g r3 b where d: "dropWhile (\<lambda>x. x \<noteq> CHR ''>'') (c # cs) = g # r3"
      and "cutFirst closeTag r3 = Some (b, rest)"
      by (auto simp: matchAttachmentAt_def Let_def r_def split: if_splits option.splits list.splits)
    from cutFirst_length [OF this(2)] have "length rest \<le> length r3" by simp
    moreover have "length (dropWhile (\<lambda>x. x \<noteq> CHR ''>'') (c # cs)) \<le> length (c # cs)"
      by (rule length_dropWhile_le)
    with d have "length r3 < length (c # cs)" by simp
    ultimately show ?thesis using a lr ls by simp
  qed
qed

text \<open>
  \<^verbatim>\<open>FindAllStringSubmatch(html, -1)\<close>: the successive non-overlapping matches, each the
  leftmost one in what is left of the text, as the pairs of group 1 and group 2.
\<close>

function findAllAttachments :: "string \<Rightarrow> (string \<times> string) list" where
  "findAllAttachments s =
     (if s = [] then []
      else (case matchAttachmentAt s of
              Some (attrs, content, rest) \<Rightarrow> (attrs, content) # findAllAttachments rest
            | None \<Rightarrow> findAllAttachments (tl s)))"
  by pat_completeness auto
termination
  by (relation "measure length") (auto dest: matchAttachmentAt_shorter)

declare findAllAttachments.simps [simp del]

text \<open>
  \<^verbatim>\<open>extractAttr\<close>: the leftmost match of \<^verbatim>\<open>name="([^"]*)"\<close>, for the literal names the
  parser asks for. The first \<^verbatim>\<open>name="\<close> decides: its value runs to the next quote, and
  if no quote follows, no later \<^verbatim>\<open>name="\<close> exists either.
\<close>

definition extractAttr :: "string \<Rightarrow> string \<Rightarrow> string" where
  "extractAttr attrs name =
     (case cutFirst (name @ ''='' @ [dq]) attrs of
        None \<Rightarrow> []
      | Some (before, rest) \<Rightarrow>
          if dq \<in> set rest then takeWhile (\<lambda>c. c \<noteq> dq) rest else [])"

text \<open>
  \<^verbatim>\<open>strconv.ParseInt(s, 10, 64)\<close> and, \<^verbatim>\<open>int\<close> having 64 bits, \<^verbatim>\<open>strconv.Atoi\<close>: an
  optional sign and at least one decimal digit, nothing else, in the range of the type.
\<close>

fun parseDigits :: "nat \<Rightarrow> string \<Rightarrow> nat option" where
  "parseDigits acc [] = Some acc"
| "parseDigits acc (c # cs) =
     (if 48 \<le> (of_char c :: nat) \<and> (of_char c :: nat) \<le> 57
      then parseDigits (acc * 10 + (of_char c - 48)) cs else None)"

definition parseInt64 :: "string \<Rightarrow> int option" where
  "parseInt64 s =
     (let neg = (s \<noteq> [] \<and> hd s = CHR ''-'');
          ds = (if s \<noteq> [] \<and> (hd s = CHR ''+'' \<or> hd s = CHR ''-'') then tl s else s)
      in if ds = [] then None
         else (case parseDigits 0 ds of
                 None \<Rightarrow> None
               | Some n \<Rightarrow>
                   let v = (if neg then - int n else int n)
                   in if - (2 ^ 63) \<le> v \<and> v < 2 ^ 63 then Some v else None))"

definition numericAttr :: "string \<Rightarrow> string \<Rightarrow> int" where
  "numericAttr attrs name =
     (let v = extractAttr attrs name
      in if v \<noteq> [] then (case parseInt64 v of Some n \<Rightarrow> n | None \<Rightarrow> 0) else 0)"

text \<open>
  The value of an \<^verbatim>\<open>href="\<close> that starts \<open>s\<close>, up to its closing quote. Both link
  patterns read \<^verbatim>\<open>href="(\<close>...\<^verbatim>\<open>)"\<close> with a group of quote-free classes and literals, so
  the group is this whole value whenever the pattern matches here.
\<close>

definition hrefValue :: "string \<Rightarrow> string option" where
  "hrefValue s =
     (if prefix (''href='' @ [dq]) s then
        (let rest = drop 6 s
         in if dq \<in> set rest then Some (takeWhile (\<lambda>c. c \<noteq> dq) rest) else None)
      else None)"

text \<open>\<^verbatim>\<open>[^"]+\?disposition=attachment\<close>: the value ends in the literal, after at least one character.\<close>

definition dispositionShape :: "string \<Rightarrow> bool" where
  "dispositionShape v =
     (suffix ''?disposition=attachment'' v \<and> length ''?disposition=attachment'' < length v)"

definition blobMarker :: string where
  "blobMarker = ''/rails/active_storage/blobs/redirect/''"

text \<open>Some occurrence of the marker with at least one character after it.\<close>

fun markerInside :: "string \<Rightarrow> bool" where
  "markerInside [] = False"
| "markerInside (c # cs) =
     ((prefix blobMarker (c # cs) \<and> length blobMarker < length (c # cs)) \<or> markerInside cs)"

text \<open>
  \<^verbatim>\<open>/[^"]+/rails/active_storage/blobs/redirect/[^"]+\<close>: a slash, at least one character,
  the marker, at least one character.
\<close>

definition blobShape :: "string \<Rightarrow> bool" where
  "blobShape v =
     (case v of
        [] \<Rightarrow> False
      | c # r \<Rightarrow> c = CHR ''/'' \<and> (case r of [] \<Rightarrow> False | d # r' \<Rightarrow> markerInside r'))"

text \<open>
  \<^verbatim>\<open>FindStringSubmatch\<close> for a link pattern: group 1 of the leftmost match, the first
  \<^verbatim>\<open>href\<close> value of the wanted shape.
\<close>

fun findHref :: "(string \<Rightarrow> bool) \<Rightarrow> string \<Rightarrow> string option" where
  "findHref shape [] = None"
| "findHref shape (c # cs) =
     (case hrefValue (c # cs) of
        Some v \<Rightarrow> if shape v then Some v else findHref shape cs
      | None \<Rightarrow> findHref shape cs)"

text \<open>The download URL of one element, from its inner content (lines 216 to 234).\<close>

definition resolveDownloadURL :: "string \<Rightarrow> string" where
  "resolveDownloadURL content =
     (let url1 = (case findHref dispositionShape content of Some v \<Rightarrow> v | None \<Rightarrow> [])
      in if url1 = [] then
           (case findHref blobShape content of
              Some url \<Rightarrow>
                if CHR ''?'' \<notin> set url then url @ ''?disposition=attachment'' else url
            | None \<Rightarrow> [])
         else url1)"

text \<open>The body of the first loop of \<^verbatim>\<open>parseAttachments\<close> for one match.\<close>

definition parseMatch :: "int \<Rightarrow> string \<Rightarrow> string \<Rightarrow> Attachment" where
  "parseMatch idx attrs content =
     \<lparr>Index = idx,
      Filename = extractAttr attrs ''filename'',
      ContentType = extractAttr attrs ''content-type'',
      Filesize = numericAttr attrs ''filesize'',
      Width = numericAttr attrs ''width'',
      Height = numericAttr attrs ''height'',
      DownloadURL = resolveDownloadURL content,
      SGID = extractAttr attrs ''sgid''\<rparr>"

text \<open>
  The three loops of \<^verbatim>\<open>parseAttachments\<close>: build one record per match with
  \<^verbatim>\<open>Index: i + 1\<close> (a match always has its three entries, so none is skipped), keep the
  records that have a file name or a download URL, number the kept ones again.
\<close>

fun buildAttachments :: "nat \<Rightarrow> (string \<times> string) list \<Rightarrow> Attachment list" where
  "buildAttachments i [] = []"
| "buildAttachments i ((attrs, content) # ms) =
     parseMatch (int i + 1) attrs content # buildAttachments (Suc i) ms"

fun filterDownloadable :: "Attachment list \<Rightarrow> Attachment list" where
  "filterDownloadable [] = []"
| "filterDownloadable (a # as) =
     (if Filename a = [] \<and> DownloadURL a = [] then filterDownloadable as
      else a # filterDownloadable as)"

fun reindex :: "nat \<Rightarrow> Attachment list \<Rightarrow> Attachment list" where
  "reindex i [] = []"
| "reindex i (a # as) = a\<lparr>Index := int i + 1\<rparr> # reindex (Suc i) as"

definition parseAttachments :: "string \<Rightarrow> Attachment list" where
  "parseAttachments html =
     reindex 0 (filterDownloadable (buildAttachments 0 (findAllAttachments html)))"

section \<open>The resource client and the world the commands run in\<close>

text \<open>
  The HTTP client is not part of the commands: it is the parameter \<open>server\<close>. A client
  made by \<^verbatim>\<open>client.New(url, token, account)\<close> is named by its account slug (empty for the
  unscoped client of the identity check). What a request returns may depend on every
  request made before it, so each method reads the list of the calls made so far. An
  error is its message, which is what \<^verbatim>\<open>%v\<close> prints.
\<close>

record APIResponse =
  Data :: json
  Location :: string

datatype call =
    Get string string
  | GetWithPagination string string
  | Post string string json
  | Patch string string json
  | FollowLocation string string
  | DownloadFile string string string
  | UploadFile string string

record server =
  srvGet :: "call list \<Rightarrow> string \<Rightarrow> string \<Rightarrow> string + APIResponse"
  srvGetWithPagination :: "call list \<Rightarrow> string \<Rightarrow> string \<Rightarrow> string + APIResponse"
  srvPost :: "call list \<Rightarrow> string \<Rightarrow> string \<Rightarrow> json \<Rightarrow> string + APIResponse"
  srvPatch :: "call list \<Rightarrow> string \<Rightarrow> string \<Rightarrow> json \<Rightarrow> string + APIResponse"
  srvFollowLocation :: "call list \<Rightarrow> string \<Rightarrow> string \<Rightarrow> string + APIResponse option"
  srvDownloadFile :: "call list \<Rightarrow> string \<Rightarrow> string \<Rightarrow> string \<Rightarrow> string option"
  srvUploadFile :: "call list \<Rightarrow> string \<Rightarrow> string \<Rightarrow> string + APIResponse"

text \<open>
  The effects of a run: the calls made, the lines written to standard error, and the
  temporary files removed, each in the order of the run.
\<close>

record world =
  calls :: "call list"
  stderr :: "string list"
  removed :: "string list"

definition logf :: "string \<Rightarrow> world \<Rightarrow> world" where
  "logf msg w = w\<lparr>stderr := stderr w @ [msg]\<rparr>"

definition osRemove :: "string \<Rightarrow> world \<Rightarrow> world" where
  "osRemove path w = w\<lparr>removed := removed w @ [path]\<rparr>"

definition record_call :: "call \<Rightarrow> world \<Rightarrow> world" where
  "record_call c w = w\<lparr>calls := calls w @ [c]\<rparr>"

definition clientGet ::
  "server \<Rightarrow> string \<Rightarrow> string \<Rightarrow> world \<Rightarrow> (string + APIResponse) \<times> world" where
  "clientGet srv c path w = (srvGet srv (calls w) c path, record_call (Get c path) w)"

definition clientGetWithPagination ::
  "server \<Rightarrow> string \<Rightarrow> string \<Rightarrow> world \<Rightarrow> (string + APIResponse) \<times> world" where
  "clientGetWithPagination srv c path w =
     (srvGetWithPagination srv (calls w) c path, record_call (GetWithPagination c path) w)"

definition clientPost ::
  "server \<Rightarrow> string \<Rightarrow> string \<Rightarrow> json \<Rightarrow> world \<Rightarrow> (string + APIResponse) \<times> world" where
  "clientPost srv c path body w = (srvPost srv (calls w) c path body, record_call (Post c path body) w)"

definition clientPatch ::
  "server \<Rightarrow> string \<Rightarrow> string \<Rightarrow> json \<Rightarrow> world \<Rightarrow> (string + APIResponse) \<times> world" where
  "clientPatch srv c path body w =
     (srvPatch srv (calls w) c path body, record_call (Patch c path body) w)"

definition clientFollowLocation ::
  "server \<Rightarrow> string \<Rightarrow> string \<Rightarrow> world \<Rightarrow> (string + APIResponse option) \<times> world" where
  "clientFollowLocation srv c location w =
     (srvFollowLocation srv (calls w) c location, record_call (FollowLocation c location) w)"

definition clientDownloadFile ::
  "server \<Rightarrow> string \<Rightarrow> string \<Rightarrow> string \<Rightarrow> world \<Rightarrow> string option \<times> world" where
  "clientDownloadFile srv c url dest w =
     (srvDownloadFile srv (calls w) c url dest, record_call (DownloadFile c url dest) w)"

definition clientUploadFile ::
  "server \<Rightarrow> string \<Rightarrow> string \<Rightarrow> world \<Rightarrow> (string + APIResponse) \<times> world" where
  "clientUploadFile srv c path w =
     (srvUploadFile srv (calls w) c path, record_call (UploadFile c path) w)"

text \<open>The calls that change something on the server.\<close>

fun mutating :: "call \<Rightarrow> bool" where
  "mutating (Post c path body) = True"
| "mutating (Patch c path body) = True"
| "mutating (UploadFile c path) = True"
| "mutating (Get c path) = False"
| "mutating (GetWithPagination c path) = False"
| "mutating (FollowLocation c location) = False"
| "mutating (DownloadFile c url dest) = False"

text \<open>\<^verbatim>\<open>strconv.Itoa\<close> and the verb \<^verbatim>\<open>%d\<close>.\<close>

fun natDigits :: "nat \<Rightarrow> string" where
  "natDigits n =
     (if n < 10 then [''0123456789'' ! n]
      else natDigits (n div 10) @ [''0123456789'' ! (n mod 10)])"

declare natDigits.simps [simp del]

definition itoa :: "int \<Rightarrow> string" where
  "itoa i = (if i < 0 then CHR ''-'' # natDigits (nat (- i)) else natDigits (nat i))"

abbreviation nl :: char where "nl \<equiv> CHR 0x0A"

text \<open>\<^verbatim>\<open>strings.TrimPrefix(s, "/")\<close>.\<close>

definition trimSlash :: "string \<Rightarrow> string" where
  "trimSlash s = (if prefix ''/'' s then drop 1 s else s)"

text \<open>
  \<^verbatim>\<open>strings.Replace(s, old, new, 1)\<close>: the first occurrence of \<open>old\<close> is replaced, and a
  text without one is returned as it is.
\<close>

definition replaceFirst :: "string \<Rightarrow> string \<Rightarrow> string \<Rightarrow> string" where
  "replaceFirst s old new =
     (case cutFirst old s of None \<Rightarrow> s | Some (before, after) \<Rightarrow> before @ new @ after)"

section \<open>The flags and the statistics of a migration\<close>

text \<open>
  The flag variables of \<^verbatim>\<open>migrate board\<close>, its argument, and what the command reads
  from outside its file: the API URL of the configuration, the result of
  \<^verbatim>\<open>requireAuth\<close>, and \<^verbatim>\<open>filepath.Join(os.TempDir(), name)\<close>.
\<close>

record settings =
  migrateBoardFrom :: string
  migrateBoardTo :: string
  migrateBoardIncludeComments :: bool
  migrateBoardIncludeSteps :: bool
  migrateBoardIncludeImages :: bool
  migrateBoardDryRun :: bool
  sourceBoardID :: string
  cfgAPIURL :: string
  requireAuth :: "string option"
  tempPath :: "string \<Rightarrow> string"

record migrationStats =
  boardCreated :: bool
  targetBoardID :: string
  targetBoardName :: string
  columnsCreated :: int
  cardsCreated :: int
  tagsApplied :: int
  commentsCreated :: int
  stepsCreated :: int
  imagesMigrated :: int
  cardMapping :: "int \<rightharpoonup> int"

section \<open>Access check and fetches\<close>

text \<open>The loop of \<^verbatim>\<open>verifyAccountAccess\<close> over the accounts of the identity.\<close>

fun scanAccounts :: "string \<Rightarrow> string \<Rightarrow> json list \<Rightarrow> bool \<times> bool \<Rightarrow> bool \<times> bool" where
  "scanAccounts sourceAccount targetAccount [] found = found"
| "scanAccounts sourceAccount targetAccount (acc # accounts) (foundSource, foundTarget) =
     (case acc of
        JObj accMap \<Rightarrow>
          (let slug = getStringField accMap ''slug'';
               normalizedSlug = trimSlash slug
           in scanAccounts sourceAccount targetAccount accounts
                (foundSource \<or> normalizedSlug = sourceAccount \<or> slug = sourceAccount,
                 foundTarget \<or> normalizedSlug = targetAccount \<or> slug = targetAccount))
      | _ \<Rightarrow> scanAccounts sourceAccount targetAccount accounts (foundSource, foundTarget))"

definition verifyAccountAccess ::
  "server \<Rightarrow> string \<Rightarrow> string \<Rightarrow> string \<Rightarrow> world \<Rightarrow> string option \<times> world" where
  "verifyAccountAccess srv apiURL sourceAccount targetAccount w =
     (let (r, w1) = clientGet srv [] (apiURL @ ''/my/identity.json'') w
      in case r of
           Inl err \<Rightarrow> (Some (''Failed to fetch identity: '' @ err), w1)
         | Inr resp \<Rightarrow>
             (case Data resp of
                JObj data \<Rightarrow>
                  (case map_of data ''accounts'' of
                     Some (JArr accounts) \<Rightarrow>
                       (let (foundSource, foundTarget) =
                              scanAccounts sourceAccount targetAccount accounts (False, False)
                        in if \<not> foundSource then
                             (Some (''You don't have access to source account '' @ [sq]
                                    @ sourceAccount @ [sq]), w1)
                           else if \<not> foundTarget then
                             (Some (''You don't have access to target account '' @ [sq]
                                    @ targetAccount @ [sq]), w1)
                           else (None, w1))
                   | _ \<Rightarrow> (Some ''No accounts found in identity response'', w1))
              | _ \<Rightarrow> (Some ''Invalid identity response'', w1)))"

definition getBoard ::
  "server \<Rightarrow> string \<Rightarrow> string \<Rightarrow> world \<Rightarrow> (string + (string \<times> json) list) \<times> world" where
  "getBoard srv c boardID w =
     (let (r, w1) = clientGet srv c (''/boards/'' @ boardID @ ''.json'') w
      in case r of
           Inl err \<Rightarrow> (Inl err, w1)
         | Inr resp \<Rightarrow>
             (case Data resp of
                JObj data \<Rightarrow> (Inr data, w1)
              | _ \<Rightarrow> (Inl ''Invalid board response'', w1)))"

definition getColumns ::
  "server \<Rightarrow> string \<Rightarrow> string \<Rightarrow> world \<Rightarrow> (string + json list) \<times> world" where
  "getColumns srv c boardID w =
     (let (r, w1) = clientGet srv c (''/boards/'' @ boardID @ ''/columns.json'') w
      in case r of
           Inl err \<Rightarrow> (Inl err, w1)
         | Inr resp \<Rightarrow>
             (case Data resp of
                JArr data \<Rightarrow> (Inr data, w1)
              | _ \<Rightarrow> (Inl ''Invalid columns response'', w1)))"

definition getAllCards ::
  "server \<Rightarrow> string \<Rightarrow> string \<Rightarrow> world \<Rightarrow> (string + json list) \<times> world" where
  "getAllCards srv c boardID w =
     (let (r, w1) = clientGetWithPagination srv c (''/cards.json?board_ids[]='' @ boardID) w
      in case r of
           Inl err \<Rightarrow> (Inl err, w1)
         | Inr resp \<Rightarrow>
             (case Data resp of
                JArr data \<Rightarrow> (Inr data, w1)
              | _ \<Rightarrow> (Inl ''Invalid cards response'', w1)))"

section \<open>Creating the board and the columns\<close>

text \<open>
  \<^verbatim>\<open>createBoard\<close> and \<^verbatim>\<open>createColumn\<close> end alike: follow the location when there is
  one and take the \<^verbatim>\<open>id\<close> of what it returns; otherwise, or when that gives no object,
  take the \<^verbatim>\<open>id\<close> of the creation response; fail when that is no object either.
\<close>

definition createdID ::
  "server \<Rightarrow> string \<Rightarrow> string \<Rightarrow> APIResponse \<Rightarrow> world \<Rightarrow> (string + string) \<times> world" where
  "createdID srv c failure resp w =
     (let fromData = (\<lambda>w'. case Data resp of
                              JObj data \<Rightarrow> (Inr (getStringField data ''id''), w')
                            | _ \<Rightarrow> (Inl failure, w'))
      in if Location resp \<noteq> [] then
           (let (f, w1) = clientFollowLocation srv c (Location resp) w
            in case f of
                 Inr (Some followResp) \<Rightarrow>
                   (case Data followResp of
                      JObj data \<Rightarrow> (Inr (getStringField data ''id''), w1)
                    | _ \<Rightarrow> fromData w1)
               | _ \<Rightarrow> fromData w1)
         else fromData w)"

definition createBoard ::
  "server \<Rightarrow> string \<Rightarrow> string \<Rightarrow> world \<Rightarrow> (string + string) \<times> world" where
  "createBoard srv c name w =
     (let body = JObj [(''board'', JObj [(''name'', JStr name)])];
          (r, w1) = clientPost srv c ''/boards.json'' body w
      in case r of
           Inl err \<Rightarrow> (Inl err, w1)
         | Inr resp \<Rightarrow> createdID srv c ''Failed to get board ID from response'' resp w1)"

definition createColumn ::
  "server \<Rightarrow> string \<Rightarrow> string \<Rightarrow> string \<Rightarrow> string \<Rightarrow> world \<Rightarrow> (string + string) \<times> world" where
  "createColumn srv c boardID name color w =
     (let colParams = [(''name'', JStr name)] @ (if color \<noteq> [] then [(''color'', JStr color)] else []);
          body = JObj [(''column'', JObj colParams)];
          (r, w1) = clientPost srv c (''/boards/'' @ boardID @ ''/columns.json'') body w
      in case r of
           Inl err \<Rightarrow> (Inl err, w1)
         | Inr resp \<Rightarrow> createdID srv c ''Failed to get column ID from response'' resp w1)"

text \<open>The two tests that skip a pseudo column, in \<^verbatim>\<open>runMigrateBoard\<close> and in \<^verbatim>\<open>countRealColumns\<close>.\<close>

definition kindNotReal :: "(string \<times> json) list \<Rightarrow> bool" where
  "kindNotReal colMap = (case map_of colMap ''kind'' of Some (JStr kind) \<Rightarrow> kind \<noteq> ''real'' | _ \<Rightarrow> False)"

definition pseudoFlag :: "(string \<times> json) list \<Rightarrow> bool" where
  "pseudoFlag colMap = (case map_of colMap ''pseudo'' of Some (JBool pseudo) \<Rightarrow> pseudo | _ \<Rightarrow> False)"

fun countRealColumns :: "json list \<Rightarrow> int" where
  "countRealColumns [] = 0"
| "countRealColumns (col # columns) =
     (case col of
        JObj colMap \<Rightarrow>
          if kindNotReal colMap then countRealColumns columns
          else if pseudoFlag colMap then countRealColumns columns
          else countRealColumns columns + 1
      | _ \<Rightarrow> countRealColumns columns)"

text \<open>Step 6 of \<^verbatim>\<open>runMigrateBoard\<close>: the loop that creates the columns.\<close>

fun createColumns ::
  "server \<Rightarrow> string \<Rightarrow> string \<Rightarrow> json list \<Rightarrow> (string \<rightharpoonup> string) \<Rightarrow> migrationStats \<Rightarrow> world
   \<Rightarrow> (string \<rightharpoonup> string) \<times> migrationStats \<times> world" where
  "createColumns srv targetClient targetBoard [] columnMapping stats w = (columnMapping, stats, w)"
| "createColumns srv targetClient targetBoard (col # sourceColumns) columnMapping stats w =
     (case col of
        JObj colMap \<Rightarrow>
          if kindNotReal colMap then
            createColumns srv targetClient targetBoard sourceColumns columnMapping stats w
          else if pseudoFlag colMap then
            createColumns srv targetClient targetBoard sourceColumns columnMapping stats w
          else
            (let colName = getStringField colMap ''name'';
                 colColor = getStringField colMap ''color'';
                 sourceColID = getStringField colMap ''id'';
                 (r, w1) = createColumn srv targetClient targetBoard colName colColor w
             in case r of
                  Inl err \<Rightarrow>
                    createColumns srv targetClient targetBoard sourceColumns columnMapping stats
                      (logf (''Warning: Failed to create column '' @ [sq] @ colName @ [sq]
                             @ '': '' @ err @ [nl]) w1)
                | Inr targetColID \<Rightarrow>
                    createColumns srv targetClient targetBoard sourceColumns
                      (columnMapping(sourceColID \<mapsto> targetColID))
                      (stats\<lparr>columnsCreated := columnsCreated stats + 1\<rparr>) w1)
      | _ \<Rightarrow> createColumns srv targetClient targetBoard sourceColumns columnMapping stats w)"

section \<open>Inline attachments\<close>

text \<open>
  The body of the loop of \<^verbatim>\<open>migrateInlineAttachments\<close> for one attachment, on the
  text and the count so far. The two clients are their account slugs. The temporary
  file is \<^verbatim>\<open>filepath.Join(tempDir, fmt.Sprintf("fizzy-migrate-attachment-%d-%s", ...))\<close>.
\<close>

definition attachmentTempFile :: "settings \<Rightarrow> Attachment \<Rightarrow> string" where
  "attachmentTempFile cfg attachment =
     tempPath cfg (''fizzy-migrate-attachment-'' @ itoa (Index attachment) @ ''-''
                   @ Filename attachment)"

definition migrateInlineOne ::
  "server \<Rightarrow> settings \<Rightarrow> string \<Rightarrow> string \<Rightarrow> Attachment \<Rightarrow> string \<times> int \<times> world
   \<Rightarrow> string \<times> int \<times> world" where
  "migrateInlineOne srv cfg sourceClient targetClient attachment st =
     (case st of (result, migratedCount, w) \<Rightarrow>
        if DownloadURL attachment = [] then (result, migratedCount, w)
        else
          (let tempFile = attachmentTempFile cfg attachment;
               (d, w1) = clientDownloadFile srv sourceClient (DownloadURL attachment) tempFile w
           in case d of
                Some err \<Rightarrow>
                  (result, migratedCount,
                   logf (''      Warning: Failed to download attachment '' @ [sq]
                         @ Filename attachment @ [sq] @ '': '' @ err @ [nl])
                     (osRemove tempFile w1))
              | None \<Rightarrow>
                  (let (u, w2) = clientUploadFile srv targetClient tempFile w1;
                       w3 = osRemove tempFile w2
                   in case u of
                        Inl err \<Rightarrow>
                          (result, migratedCount,
                           logf (''      Warning: Failed to upload attachment '' @ [sq]
                                 @ Filename attachment @ [sq] @ '': '' @ err @ [nl]) w3)
                      | Inr uploadResp \<Rightarrow>
                          (case Data uploadResp of
                             JObj uploadData \<Rightarrow>
                               (let attachable = getStringField uploadData ''attachable_sgid'';
                                    newSGID = (if attachable = []
                                               then getStringField uploadData ''signed_id''
                                               else attachable)
                                in if newSGID = [] then
                                     (result, migratedCount,
                                      logf (''      Warning: No SGID in upload response for ''
                                            @ [sq] @ Filename attachment @ [sq] @ [nl]) w3)
                                   else if SGID attachment \<noteq> [] then
                                     (replaceFirst result (SGID attachment) newSGID,
                                      migratedCount + 1, w3)
                                   else (result, migratedCount, w3))
                           | _ \<Rightarrow>
                               (result, migratedCount,
                                logf (''      Warning: Invalid upload response for '' @ [sq]
                                      @ Filename attachment @ [sq] @ [nl]) w3)))))"

fun migrateInlineLoop ::
  "server \<Rightarrow> settings \<Rightarrow> string \<Rightarrow> string \<Rightarrow> Attachment list \<Rightarrow> string \<times> int \<times> world
   \<Rightarrow> string \<times> int \<times> world" where
  "migrateInlineLoop srv cfg sourceClient targetClient [] st = st"
| "migrateInlineLoop srv cfg sourceClient targetClient (attachment # attachments) st =
     migrateInlineLoop srv cfg sourceClient targetClient attachments
       (migrateInlineOne srv cfg sourceClient targetClient attachment st)"

text \<open>
  \<^verbatim>\<open>migrateInlineAttachments\<close>: the text, the count, and the world. Its third result in
  the source is always \<^verbatim>\<open>nil\<close>, so the callers' branches for an error never run and
  are left out.
\<close>

definition migrateInlineAttachments ::
  "server \<Rightarrow> settings \<Rightarrow> string \<Rightarrow> string \<Rightarrow> string \<Rightarrow> world \<Rightarrow> string \<times> int \<times> world" where
  "migrateInlineAttachments srv cfg sourceClient targetClient html w =
     (let attachments = parseAttachments html
      in if attachments = [] then (html, 0, w)
         else migrateInlineLoop srv cfg sourceClient targetClient attachments (html, 0, w))"

section \<open>One card\<close>

definition errOf :: "string + APIResponse \<Rightarrow> string option" where
  "errOf r = (case r of Inl err \<Rightarrow> Some err | Inr resp \<Rightarrow> None)"

definition applyTag :: "server \<Rightarrow> string \<Rightarrow> string \<Rightarrow> string \<Rightarrow> world \<Rightarrow> string option \<times> world" where
  "applyTag srv c cardNum tagName w =
     (let (r, w1) = clientPost srv c (''/cards/'' @ cardNum @ ''/taggings.json'')
                      (JObj [(''tag_title'', JStr tagName)]) w
      in (errOf r, w1))"

definition moveToColumn :: "server \<Rightarrow> string \<Rightarrow> string \<Rightarrow> string \<Rightarrow> world \<Rightarrow> string option \<times> world" where
  "moveToColumn srv c cardNum columnID w =
     (let (r, w1) = clientPost srv c (''/cards/'' @ cardNum @ ''/triage.json'')
                      (JObj [(''column_id'', JStr columnID)]) w
      in (errOf r, w1))"

definition closeCard :: "server \<Rightarrow> string \<Rightarrow> string \<Rightarrow> world \<Rightarrow> string option \<times> world" where
  "closeCard srv c cardNum w =
     (let (r, w1) = clientPost srv c (''/cards/'' @ cardNum @ ''/closure.json'') JNull w
      in (errOf r, w1))"

definition markGolden :: "server \<Rightarrow> string \<Rightarrow> string \<Rightarrow> world \<Rightarrow> string option \<times> world" where
  "markGolden srv c cardNum w =
     (let (r, w1) = clientPost srv c (''/cards/'' @ cardNum @ ''/goldness.json'') JNull w
      in (errOf r, w1))"

definition getCardColumnID :: "(string \<times> json) list \<Rightarrow> string" where
  "getCardColumnID cardMap =
     (let nested = (case map_of cardMap ''column'' of
                      Some (JObj col) \<Rightarrow>
                        (case map_of col ''id'' of Some (JStr colID) \<Rightarrow> colID | _ \<Rightarrow> [])
                    | _ \<Rightarrow> [])
      in case map_of cardMap ''column_id'' of
           Some (JStr colID) \<Rightarrow> if colID \<noteq> [] then colID else nested
         | _ \<Rightarrow> nested)"

text \<open>Lines 384 to 395 of \<^verbatim>\<open>migrateCard\<close>: the description to send, and the images counted.\<close>

definition cardDescription ::
  "server \<Rightarrow> settings \<Rightarrow> string \<Rightarrow> string \<Rightarrow> (string \<times> json) list \<Rightarrow> migrationStats \<Rightarrow> world
   \<Rightarrow> string \<times> migrationStats \<times> world" where
  "cardDescription srv cfg sourceClient targetClient sourceCard stats w =
     (let description = getStringField sourceCard ''description'';
          descriptionHTML = getStringField sourceCard ''description_html''
      in if migrateBoardIncludeImages cfg \<and> descriptionHTML \<noteq> [] then
           (let (migratedDesc, attachmentCount, w1) =
                  migrateInlineAttachments srv cfg sourceClient targetClient descriptionHTML w
            in if attachmentCount > 0 then
                 (migratedDesc,
                  stats\<lparr>imagesMigrated := imagesMigrated stats + attachmentCount\<rparr>, w1)
               else (description, stats, w1))
         else (description, stats, w))"

text \<open>Lines 397 to 411: the body of the request that creates the card.\<close>

definition cardRequestBody :: "string \<Rightarrow> string \<Rightarrow> string \<Rightarrow> string \<Rightarrow> json" where
  "cardRequestBody targetBoard title description createdAt =
     JObj [(''board_id'', JStr targetBoard),
           (''card'', JObj ([(''title'', JStr title)]
                           @ (if description \<noteq> [] then [(''description'', JStr description)] else [])
                           @ (if createdAt \<noteq> [] then [(''created_at'', JStr createdAt)] else [])))]"

text \<open>Lines 413 to 439: the request, and the number of the new card.\<close>

definition createTargetCard ::
  "server \<Rightarrow> string \<Rightarrow> json \<Rightarrow> world \<Rightarrow> (string + int) \<times> world" where
  "createTargetCard srv targetClient body w =
     (let (r, w1) = clientPost srv targetClient ''/cards.json'' body w
      in case r of
           Inl err \<Rightarrow> (Inl err, w1)
         | Inr resp \<Rightarrow>
             (let (followed, w2) =
                    (if Location resp \<noteq> [] then
                       (let (f, w') = clientFollowLocation srv targetClient (Location resp) w1
                        in (case f of
                              Inr (Some followResp) \<Rightarrow>
                                (case Data followResp of
                                   JObj data \<Rightarrow> getIntField data ''number''
                                 | _ \<Rightarrow> 0)
                            | _ \<Rightarrow> 0, w'))
                     else (0, w1));
                  newCardNum =
                    (if followed = 0 then
                       (case Data resp of
                          JObj data \<Rightarrow> getIntField data ''number''
                        | _ \<Rightarrow> followed)
                     else followed)
              in if newCardNum = 0 then (Inl ''Failed to get new card number'', w2)
                 else (Inr newCardNum, w2)))"

text \<open>Lines 444 to 458: the tags, the loop and then the block that runs it.\<close>

fun applyTags ::
  "server \<Rightarrow> string \<Rightarrow> string \<Rightarrow> json list \<Rightarrow> migrationStats \<Rightarrow> world \<Rightarrow> migrationStats \<times> world" where
  "applyTags srv targetClient cardNum [] stats w = (stats, w)"
| "applyTags srv targetClient cardNum (tag # tags) stats w =
     (case tag of
        JStr tagName \<Rightarrow>
          (let (e, w1) = applyTag srv targetClient cardNum tagName w
           in case e of
                Some err \<Rightarrow>
                  applyTags srv targetClient cardNum tags stats
                    (logf (''    Warning: Failed to apply tag '' @ [sq] @ tagName @ [sq]
                           @ '': '' @ err @ [nl]) w1)
              | None \<Rightarrow>
                  applyTags srv targetClient cardNum tags
                    (stats\<lparr>tagsApplied := tagsApplied stats + 1\<rparr>) w1)
      | _ \<Rightarrow> applyTags srv targetClient cardNum tags stats w)"

definition cardTags ::
  "server \<Rightarrow> string \<Rightarrow> (string \<times> json) list \<Rightarrow> string \<Rightarrow> migrationStats \<Rightarrow> world
   \<Rightarrow> migrationStats \<times> world" where
  "cardTags srv targetClient sourceCard cardNum stats w =
     (case map_of sourceCard ''tags'' of
        Some (JArr tags) \<Rightarrow> applyTags srv targetClient cardNum tags stats w
      | _ \<Rightarrow> (stats, w))"

text \<open>Lines 460 to 469: the column, through the mapping.\<close>

definition placeCard ::
  "server \<Rightarrow> string \<Rightarrow> (string \<times> json) list \<Rightarrow> string \<Rightarrow> (string \<rightharpoonup> string) \<Rightarrow> world \<Rightarrow> world" where
  "placeCard srv targetClient sourceCard cardNum columnMapping w =
     (let sourceColumnID = getCardColumnID sourceCard
      in if sourceColumnID \<noteq> [] then
           (case columnMapping sourceColumnID of
              Some targetColumnID \<Rightarrow>
                (let (e, w1) = moveToColumn srv targetClient cardNum targetColumnID w
                 in case e of
                      Some err \<Rightarrow>
                        logf (''    Warning: Failed to move card to column: '' @ err @ [nl]) w1
                    | None \<Rightarrow> w1)
            | None \<Rightarrow> w)
         else w)"

text \<open>Lines 471 to 493: closed and golden.\<close>

definition applyCardState ::
  "server \<Rightarrow> string \<Rightarrow> (string \<times> json) list \<Rightarrow> string \<Rightarrow> world \<Rightarrow> world" where
  "applyCardState srv targetClient sourceCard cardNum w =
     (let status = getStringField sourceCard ''status'';
          golden = getBoolField sourceCard ''golden'';
          w1 = (if status = ''closed'' then
                  (let (e, w') = closeCard srv targetClient cardNum w
                   in case e of
                        Some err \<Rightarrow> logf (''    Warning: Failed to close card: '' @ err @ [nl]) w'
                      | None \<Rightarrow> w')
                else w)
      in if golden then
           (let (e, w') = markGolden srv targetClient cardNum w1
            in case e of
                 Some err \<Rightarrow>
                   logf (''    Warning: Failed to mark card as golden: '' @ err @ [nl]) w'
               | None \<Rightarrow> w')
         else w1)"

section \<open>Comments, steps and the header image\<close>

text \<open>The body of a comment: the content to send and its HTML, if it has one.\<close>

definition commentBody :: "(string \<times> json) list \<Rightarrow> string \<times> string" where
  "commentBody commentMap =
     (case map_of commentMap ''body'' of
        Some (JObj body) \<Rightarrow>
          (case map_of body ''html'' of
             Some (JStr html) \<Rightarrow> (html, html)
           | _ \<Rightarrow>
             (case map_of body ''plain_text'' of
                Some (JStr plain) \<Rightarrow> (plain, [])
              | _ \<Rightarrow> ([], [])))
      | Some (JStr body) \<Rightarrow> (body, [])
      | _ \<Rightarrow> ([], []))"

fun migrateCommentsLoop ::
  "server \<Rightarrow> settings \<Rightarrow> string \<Rightarrow> string \<Rightarrow> string \<Rightarrow> json list \<Rightarrow> int \<Rightarrow> world \<Rightarrow> int \<times> world" where
  "migrateCommentsLoop srv cfg sourceClient targetClient targetCardNum [] created w = (created, w)"
| "migrateCommentsLoop srv cfg sourceClient targetClient targetCardNum (comment # comments) created w =
     (case comment of
        JObj commentMap \<Rightarrow>
          (let (bodyContent, bodyHTML) = commentBody commentMap
           in if bodyContent = [] then
                migrateCommentsLoop srv cfg sourceClient targetClient targetCardNum comments created w
              else
                (let (bodyContent', w1) =
                       (if migrateBoardIncludeImages cfg \<and> bodyHTML \<noteq> [] then
                          (let (migratedBody, n, w') =
                                 migrateInlineAttachments srv cfg sourceClient targetClient bodyHTML w
                           in (migratedBody, w'))
                        else (bodyContent, w));
                     createdAt = getStringField commentMap ''created_at'';
                     commentParams = [(''body'', JStr bodyContent')]
                                     @ (if createdAt \<noteq> [] then [(''created_at'', JStr createdAt)] else []);
                     reqBody = JObj [(''comment'', JObj commentParams)];
                     (r, w2) = clientPost srv targetClient
                                 (''/cards/'' @ targetCardNum @ ''/comments.json'') reqBody w1
                 in case r of
                      Inl err \<Rightarrow>
                        migrateCommentsLoop srv cfg sourceClient targetClient targetCardNum comments
                          created (logf (''      Warning: Failed to create comment: '' @ err @ [nl]) w2)
                    | Inr resp \<Rightarrow>
                        migrateCommentsLoop srv cfg sourceClient targetClient targetCardNum comments
                          (created + 1) w2))
      | _ \<Rightarrow> migrateCommentsLoop srv cfg sourceClient targetClient targetCardNum comments created w)"

definition migrateComments ::
  "server \<Rightarrow> settings \<Rightarrow> string \<Rightarrow> string \<Rightarrow> string \<Rightarrow> string \<Rightarrow> world
   \<Rightarrow> (int \<times> string option) \<times> world" where
  "migrateComments srv cfg sourceClient targetClient sourceCardNum targetCardNum w =
     (let (r, w1) = clientGetWithPagination srv sourceClient
                      (''/cards/'' @ sourceCardNum @ ''/comments.json'') w
      in case r of
           Inl err \<Rightarrow> ((0, Some err), w1)
         | Inr resp \<Rightarrow>
             (case Data resp of
                JArr comments \<Rightarrow>
                  (let (created, w2) =
                         migrateCommentsLoop srv cfg sourceClient targetClient targetCardNum
                           comments 0 w1
                   in ((created, None), w2))
              | _ \<Rightarrow> ((0, None), w1)))"

fun migrateStepsLoop ::
  "server \<Rightarrow> string \<Rightarrow> string \<Rightarrow> json list \<Rightarrow> int \<Rightarrow> world \<Rightarrow> int \<times> world" where
  "migrateStepsLoop srv targetClient targetCardNum [] created w = (created, w)"
| "migrateStepsLoop srv targetClient targetCardNum (step # steps) created w =
     (case step of
        JObj stepMap \<Rightarrow>
          (let content = getStringField stepMap ''content''
           in if content = [] then migrateStepsLoop srv targetClient targetCardNum steps created w
              else
                (let completed = getBoolField stepMap ''completed'';
                     stepParams = [(''content'', JStr content)]
                                  @ (if completed then [(''completed'', JBool True)] else []);
                     reqBody = JObj [(''step'', JObj stepParams)];
                     (r, w1) = clientPost srv targetClient
                                 (''/cards/'' @ targetCardNum @ ''/steps.json'') reqBody w
                 in case r of
                      Inl err \<Rightarrow>
                        migrateStepsLoop srv targetClient targetCardNum steps created
                          (logf (''      Warning: Failed to create step: '' @ err @ [nl]) w1)
                    | Inr resp \<Rightarrow>
                        migrateStepsLoop srv targetClient targetCardNum steps (created + 1) w1))
      | _ \<Rightarrow> migrateStepsLoop srv targetClient targetCardNum steps created w)"

text \<open>\<^verbatim>\<open>migrateSteps\<close>; its error result is always \<^verbatim>\<open>nil\<close>.\<close>

definition migrateSteps ::
  "server \<Rightarrow> string \<Rightarrow> (string \<times> json) list \<Rightarrow> string \<Rightarrow> world \<Rightarrow> int \<times> world" where
  "migrateSteps srv targetClient sourceCard targetCardNum w =
     (case map_of sourceCard ''steps'' of
        Some (JArr steps) \<Rightarrow>
          if steps = [] then (0, w)
          else migrateStepsLoop srv targetClient targetCardNum steps 0 w
      | _ \<Rightarrow> (0, w))"

text \<open>
  \<^verbatim>\<open>migrateCardImage\<close>; the deferred \<^verbatim>\<open>os.Remove\<close> runs at every return.
\<close>

definition imageTempFile :: "settings \<Rightarrow> string \<Rightarrow> string" where
  "imageTempFile cfg targetCardNum = tempPath cfg (''fizzy-migrate-image-'' @ targetCardNum @ ''.jpg'')"

definition migrateCardImage ::
  "server \<Rightarrow> settings \<Rightarrow> string \<Rightarrow> string \<Rightarrow> string \<Rightarrow> string \<Rightarrow> world \<Rightarrow> string option \<times> world" where
  "migrateCardImage srv cfg sourceClient targetClient imageURL targetCardNum w =
     (let tempFile = imageTempFile cfg targetCardNum;
          (d, w1) = clientDownloadFile srv sourceClient imageURL tempFile w
      in case d of
           Some err \<Rightarrow> (Some (''failed to download image: '' @ err), osRemove tempFile w1)
         | None \<Rightarrow>
             (let (u, w2) = clientUploadFile srv targetClient tempFile w1
              in case u of
                   Inl err \<Rightarrow> (Some (''failed to upload image: '' @ err), osRemove tempFile w2)
                 | Inr uploadResp \<Rightarrow>
                     (case Data uploadResp of
                        JObj uploadData \<Rightarrow>
                          (let signedID = getStringField uploadData ''signed_id''
                           in if signedID = [] then
                                (Some ''no signed_id in upload response'', osRemove tempFile w2)
                              else
                                (let body = JObj [(''card'', JObj [(''image'', JStr signedID)])];
                                     (p, w3) = clientPatch srv targetClient
                                                 (''/cards/'' @ targetCardNum @ ''.json'') body w2
                                 in case p of
                                      Inl err \<Rightarrow>
                                        (Some (''failed to set image on card: '' @ err),
                                         osRemove tempFile w3)
                                    | Inr resp \<Rightarrow> (None, osRemove tempFile w3)))
                      | _ \<Rightarrow> (Some ''invalid upload response'', osRemove tempFile w2))))"

text \<open>Lines 495 to 524: comments, steps and the header image, each when asked for.\<close>

definition cardComments ::
  "server \<Rightarrow> settings \<Rightarrow> string \<Rightarrow> string \<Rightarrow> int \<Rightarrow> string \<Rightarrow> migrationStats \<Rightarrow> world
   \<Rightarrow> migrationStats \<times> world" where
  "cardComments srv cfg sourceClient targetClient sourceCardNum newCardNumStr stats w =
     (if migrateBoardIncludeComments cfg then
        (let ((created, e), w1) =
               migrateComments srv cfg sourceClient targetClient (itoa sourceCardNum)
                 newCardNumStr w;
             w2 = (case e of
                     Some err \<Rightarrow>
                       logf (''    Warning: Failed to migrate comments: '' @ err @ [nl]) w1
                   | None \<Rightarrow> w1)
         in (stats\<lparr>commentsCreated := commentsCreated stats + created\<rparr>, w2))
      else (stats, w))"

definition cardSteps ::
  "server \<Rightarrow> settings \<Rightarrow> string \<Rightarrow> (string \<times> json) list \<Rightarrow> string \<Rightarrow> migrationStats \<Rightarrow> world
   \<Rightarrow> migrationStats \<times> world" where
  "cardSteps srv cfg targetClient sourceCard newCardNumStr stats w =
     (if migrateBoardIncludeSteps cfg then
        (let (created, w1) = migrateSteps srv targetClient sourceCard newCardNumStr w
         in (stats\<lparr>stepsCreated := stepsCreated stats + created\<rparr>, w1))
      else (stats, w))"

definition cardImage ::
  "server \<Rightarrow> settings \<Rightarrow> string \<Rightarrow> string \<Rightarrow> (string \<times> json) list \<Rightarrow> string \<Rightarrow> migrationStats
   \<Rightarrow> world \<Rightarrow> migrationStats \<times> world" where
  "cardImage srv cfg sourceClient targetClient sourceCard newCardNumStr stats w =
     (if migrateBoardIncludeImages cfg then
        (let imageURL = getStringField sourceCard ''image_url''
         in if imageURL \<noteq> [] then
              (let (e, w1) = migrateCardImage srv cfg sourceClient targetClient imageURL
                               newCardNumStr w
               in case e of
                    Some err \<Rightarrow>
                      (stats, logf (''    Warning: Failed to migrate image: '' @ err @ [nl]) w1)
                  | None \<Rightarrow> (stats\<lparr>imagesMigrated := imagesMigrated stats + 1\<rparr>, w1))
            else (stats, w))
      else (stats, w))"

text \<open>
  \<^verbatim>\<open>migrateCard\<close>: the description, the creation, and then, with the number of the new
  card, the tags, the column, the state, the comments, the steps and the image. The statistics are a pointer
  in the source, so what was counted before a failed creation stays counted.
\<close>

definition migrateCard ::
  "server \<Rightarrow> settings \<Rightarrow> string \<Rightarrow> string \<Rightarrow> (string \<times> json) list \<Rightarrow> string
   \<Rightarrow> (string \<rightharpoonup> string) \<Rightarrow> migrationStats \<Rightarrow> world \<Rightarrow> (string + int) \<times> migrationStats \<times> world" where
  "migrateCard srv cfg sourceClient targetClient sourceCard targetBoard columnMapping stats w =
     (let title = getStringField sourceCard ''title'';
          createdAt = getStringField sourceCard ''created_at'';
          sourceCardNum = getIntField sourceCard ''number'';
          (description, stats1, w1) =
            cardDescription srv cfg sourceClient targetClient sourceCard stats w;
          body = cardRequestBody targetBoard title description createdAt;
          (r, w2) = createTargetCard srv targetClient body w1
      in case r of
           Inl err \<Rightarrow> (Inl err, stats1, w2)
         | Inr newCardNum \<Rightarrow>
             (let newCardNumStr = itoa newCardNum;
                  (stats2, w3) = cardTags srv targetClient sourceCard newCardNumStr stats1 w2;
                  w4 = placeCard srv targetClient sourceCard newCardNumStr columnMapping w3;
                  w5 = applyCardState srv targetClient sourceCard newCardNumStr w4;
                  (stats3, w6) =
                    cardComments srv cfg sourceClient targetClient sourceCardNum newCardNumStr
                      stats2 w5;
                  (stats4, w7) = cardSteps srv cfg targetClient sourceCard newCardNumStr stats3 w6;
                  (stats5, w8) =
                    cardImage srv cfg sourceClient targetClient sourceCard newCardNumStr stats4 w7
              in (Inr newCardNum, stats5, w8)))"

section \<open>The migration run\<close>

text \<open>
  Step 7 of \<^verbatim>\<open>runMigrateBoard\<close>: the body of the loop over the cards, for the card at
  index \<open>i\<close>, and the loop.
\<close>

definition cardProgressLine :: "nat \<Rightarrow> nat \<Rightarrow> (string \<times> json) list \<Rightarrow> string" where
  "cardProgressLine i ncards cardMap =
     ''  ['' @ itoa (int i + 1) @ ''/'' @ itoa (int ncards) @ ''] Card #''
     @ itoa (getIntField cardMap ''number'') @ '': '' @ getStringField cardMap ''title'' @ [nl]"

definition migrateCardsBody ::
  "server \<Rightarrow> settings \<Rightarrow> nat \<Rightarrow> nat \<Rightarrow> json \<Rightarrow> string \<Rightarrow> (string \<rightharpoonup> string)
   \<Rightarrow> migrationStats \<Rightarrow> world \<Rightarrow> migrationStats \<times> world" where
  "migrateCardsBody srv cfg i ncards sourceCard targetBoard columnMapping stats w =
     (case sourceCard of
        JObj cardMap \<Rightarrow>
          (let sourceCardNum = getIntField cardMap ''number'';
               w1 = logf (cardProgressLine i ncards cardMap) w;
               (r, stats1, w2) =
                 migrateCard srv cfg (migrateBoardFrom cfg) (migrateBoardTo cfg) cardMap
                   targetBoard columnMapping stats w1
           in case r of
                Inl err \<Rightarrow>
                  (stats1,
                   logf (''  Warning: Failed to migrate card #'' @ itoa sourceCardNum @ '': ''
                         @ err @ [nl]) w2)
              | Inr targetCardNum \<Rightarrow>
                  (stats1\<lparr>cardMapping := (cardMapping stats1)(sourceCardNum \<mapsto> targetCardNum),
                          cardsCreated := cardsCreated stats1 + 1\<rparr>, w2))
      | _ \<Rightarrow> (stats, w))"

fun migrateCards ::
  "server \<Rightarrow> settings \<Rightarrow> nat \<Rightarrow> nat \<Rightarrow> json list \<Rightarrow> string \<Rightarrow> (string \<rightharpoonup> string)
   \<Rightarrow> migrationStats \<Rightarrow> world \<Rightarrow> migrationStats \<times> world" where
  "migrateCards srv cfg i ncards [] targetBoard columnMapping stats w = (stats, w)"
| "migrateCards srv cfg i ncards (sourceCard # sourceCards) targetBoard columnMapping stats w =
     (let (stats1, w1) =
            migrateCardsBody srv cfg i ncards sourceCard targetBoard columnMapping stats w
      in migrateCards srv cfg (Suc i) ncards sourceCards targetBoard columnMapping stats1 w1)"

definition printDryRunSummary :: "settings \<Rightarrow> string \<Rightarrow> json list \<Rightarrow> json list \<Rightarrow> world \<Rightarrow> world" where
  "printDryRunSummary cfg boardName columns sourceCards w =
     (let w1 = logf ([nl] @ ''=== DRY RUN SUMMARY ==='' @ [nl]) w;
          w2 = logf (''Would migrate board: '' @ boardName @ [nl]) w1;
          w3 = logf (''Columns to create: '' @ itoa (countRealColumns columns) @ [nl]) w2;
          w4 = logf (''Cards to migrate: '' @ itoa (int (length sourceCards)) @ [nl]) w3;
          w5 = (if migrateBoardIncludeComments cfg
                then logf (''Comments: will be included'' @ [nl]) w4 else w4);
          w6 = (if migrateBoardIncludeSteps cfg
                then logf (''Steps: will be included'' @ [nl]) w5 else w5);
          w7 = (if migrateBoardIncludeImages cfg
                then logf (''Images: will be included'' @ [nl]) w6 else w6)
      in logf ([nl] @ ''No changes were made.'' @ [nl]) w7)"

definition printMigrationSummary :: "settings \<Rightarrow> migrationStats \<Rightarrow> world \<Rightarrow> world" where
  "printMigrationSummary cfg stats w =
     (let w1 = logf ([nl] @ ''=== MIGRATION COMPLETE ==='' @ [nl]) w;
          w2 = logf (''Board created: '' @ targetBoardName stats @ '' (ID: '' @ targetBoardID stats
                     @ '')'' @ [nl]) w1;
          w3 = logf (''Columns created: '' @ itoa (columnsCreated stats) @ [nl]) w2;
          w4 = logf (''Cards migrated: '' @ itoa (cardsCreated stats) @ [nl]) w3;
          w5 = logf (''Tags applied: '' @ itoa (tagsApplied stats) @ [nl]) w4;
          w6 = (if migrateBoardIncludeComments cfg
                then logf (''Comments created: '' @ itoa (commentsCreated stats) @ [nl]) w5 else w5);
          w7 = (if migrateBoardIncludeSteps cfg
                then logf (''Steps created: '' @ itoa (stepsCreated stats) @ [nl]) w6 else w6);
          w8 = (if migrateBoardIncludeImages cfg
                then logf (''Images migrated: '' @ itoa (imagesMigrated stats) @ [nl]) w7 else w7);
          w9 = logf ([nl] @ ''Note: Card creators and comment authors are now you (the migrating user).''
                     @ [nl]) w8
      in logf (''      User assignments were not migrated - reassign as needed.'' @ [nl]) w9)"

text \<open>
  What \<^verbatim>\<open>printSuccess\<close> is given: for a dry run the board, the number of columns and
  of cards and the two accounts; for a migration the fields of the statistics.
\<close>

datatype payload =
    DryRunOutput string int int string string
  | MigratedOutput string string int int int int int int "int \<rightharpoonup> int"

definition newStats :: migrationStats where
  "newStats = \<lparr>boardCreated = False, targetBoardID = [], targetBoardName = [],
               columnsCreated = 0, cardsCreated = 0, tagsApplied = 0, commentsCreated = 0,
               stepsCreated = 0, imagesMigrated = 0, cardMapping = Map.empty\<rparr>"

text \<open>
  Steps 5 to 7 and the summary: everything after the dry-run exit. \<^verbatim>\<open>Inl\<close> is
  \<^verbatim>\<open>exitWithError\<close>.
\<close>

definition migrateBoardContents ::
  "server \<Rightarrow> settings \<Rightarrow> string \<Rightarrow> json list \<Rightarrow> json list \<Rightarrow> world \<Rightarrow> (string + payload) \<times> world" where
  "migrateBoardContents srv cfg boardName sourceColumns sourceCards w =
     (let targetClient = migrateBoardTo cfg;
          (t, w1) = createBoard srv targetClient boardName (logf (''Creating target board...'' @ [nl]) w)
      in case t of
           Inl err \<Rightarrow> (Inl (''Failed to create target board: '' @ err), w1)
         | Inr targetBoard \<Rightarrow>
             (let stats1 = newStats\<lparr>boardCreated := True, targetBoardID := targetBoard,
                                      targetBoardName := boardName\<rparr>;
                  (columnMapping, stats2, w2) =
                    createColumns srv targetClient targetBoard sourceColumns Map.empty stats1
                      (logf (''Creating columns...'' @ [nl]) w1);
                  (stats3, w3) =
                    migrateCards srv cfg 0 (length sourceCards) sourceCards targetBoard columnMapping
                      stats2 (logf (''Migrating cards...'' @ [nl]) w2);
                  w4 = printMigrationSummary cfg stats3 w3
              in (Inr (MigratedOutput (targetBoardID stats3) (targetBoardName stats3)
                         (columnsCreated stats3) (cardsCreated stats3) (tagsApplied stats3)
                         (commentsCreated stats3) (stepsCreated stats3) (imagesMigrated stats3)
                         (cardMapping stats3)), w4)))"

definition runMigrateBoard :: "server \<Rightarrow> settings \<Rightarrow> world \<Rightarrow> (string + payload) \<times> world" where
  "runMigrateBoard srv cfg w =
     (case requireAuth cfg of
        Some err \<Rightarrow> (Inl err, w)
      | None \<Rightarrow>
          if migrateBoardFrom cfg = [] then (Inl ''--from flag is required'', w)
          else if migrateBoardTo cfg = [] then (Inl ''--to flag is required'', w)
          else if migrateBoardFrom cfg = migrateBoardTo cfg then
            (Inl ''--from and --to accounts must be different'', w)
          else
            (let sourceClient = migrateBoardFrom cfg;
                 (v, w1) = verifyAccountAccess srv (cfgAPIURL cfg) (migrateBoardFrom cfg)
                             (migrateBoardTo cfg) (logf (''Verifying access to accounts...'' @ [nl]) w)
             in case v of
                  Some err \<Rightarrow> (Inl err, w1)
                | None \<Rightarrow>
                    (let (b, w2) = getBoard srv sourceClient (sourceBoardID cfg)
                                     (logf (''Fetching source board...'' @ [nl]) w1)
                     in case b of
                          Inl err \<Rightarrow> (Inl (''Failed to fetch source board: '' @ err), w2)
                        | Inr sourceBoard \<Rightarrow>
                            (let boardName = getStringField sourceBoard ''name'';
                                 (c, w3) = getColumns srv sourceClient (sourceBoardID cfg)
                                             (logf (''Fetching source columns...'' @ [nl])
                                                (logf (''Source board: '' @ boardName @ [nl]) w2))
                             in case c of
                                  Inl err \<Rightarrow> (Inl (''Failed to fetch source columns: '' @ err), w3)
                                | Inr sourceColumns \<Rightarrow>
                                    (let (k, w4) = getAllCards srv sourceClient (sourceBoardID cfg)
                                                     (logf (''Fetching source cards...'' @ [nl]) w3)
                                     in case k of
                                          Inl err \<Rightarrow>
                                            (Inl (''Failed to fetch source cards: '' @ err), w4)
                                        | Inr sourceCards \<Rightarrow>
                                            (let w5 = logf (''Found '' @ itoa (int (length sourceCards))
                                                            @ '' cards to migrate'' @ [nl]) w4
                                             in if migrateBoardDryRun cfg then
                                                  (Inr (DryRunOutput boardName
                                                          (int (length sourceColumns))
                                                          (int (length sourceCards))
                                                          (migrateBoardFrom cfg) (migrateBoardTo cfg)),
                                                   printDryRunSummary cfg boardName sourceColumns
                                                     sourceCards w5)
                                                else
                                                  migrateBoardContents srv cfg boardName
                                                    sourceColumns sourceCards w5))))))"
section \<open>Properties of the parser\<close>

text \<open>A match is kept when it has a file name or a download URL.\<close>

definition downloadable :: "string \<times> string \<Rightarrow> bool" where
  "downloadable m = (\<not> (extractAttr (fst m) ''filename'' = [] \<and> resolveDownloadURL (snd m) = []))"

lemma reindex_filter_build:
  "reindex i (filterDownloadable (buildAttachments j ms)) = buildAttachments i (filter downloadable ms)"
proof (induction ms arbitrary: i j)
  case Nil
  show ?case by simp
next
  case (Cons m ms)
  obtain attrs content where m: "m = (attrs, content)" by (cases m)
  show ?case
  proof (cases "downloadable m")
    case True
    then show ?thesis
      unfolding m by (simp add: Cons.IH) (auto simp add: downloadable_def parseMatch_def Cons.IH)
  next
    case False
    then show ?thesis
      unfolding m by (simp add: downloadable_def parseMatch_def Cons.IH)
  qed
qed



lemma cutFirst_Some: "cutFirst sep s = Some (b, a) \<Longrightarrow> s = b @ sep @ a"
proof (induction s arbitrary: b)
  case Nil
  then show ?case by (simp split: if_splits)
next
  case (Cons c cs)
  show ?case
  proof (cases "prefix sep (c # cs)")
    case True
    with Cons.prems have "b = []" and "a = drop (length sep) (c # cs)" by simp_all
    with True show ?thesis by (auto simp: prefix_def)
  next
    case False
    with Cons.prems obtain b' where c: "cutFirst sep cs = Some (b', a)" and b: "b = c # b'"
      by (auto split: option.splits)
    from Cons.IH [OF c] b show ?thesis by simp
  qed
qed














lemma parseAttachments_filter:
  "parseAttachments html = buildAttachments 0 (filter downloadable (findAllAttachments html))"
  by (simp add: parseAttachments_def reindex_filter_build)



















section \<open>Account access\<close>

text \<open>
  What the loop of \<^verbatim>\<open>verifyAccountAccess\<close> finds for one account: some account object
  of the list has its slug.
\<close>

definition hasAccess :: "json list \<Rightarrow> string \<Rightarrow> bool" where
  "hasAccess accounts account =
     list_ex (\<lambda>acc. case acc of
                      JObj accMap \<Rightarrow>
                        trimSlash (getStringField accMap ''slug'') = account
                        \<or> getStringField accMap ''slug'' = account
                    | _ \<Rightarrow> False) accounts"

lemma scanAccounts_hasAccess:
  "scanAccounts s t accounts (fs, ft) = (fs \<or> hasAccess accounts s, ft \<or> hasAccess accounts t)"
proof (induction accounts arbitrary: fs ft)
  case Nil
  show ?case by (simp add: hasAccess_def)
next
  case (Cons acc accounts)
  show ?case
  proof (cases acc)
    case (JObj accMap)
    then show ?thesis by (auto simp: Cons.IH hasAccess_def Let_def)
  qed (simp_all add: Cons.IH hasAccess_def)
qed

lemma verifyAccountAccess_granted:
  assumes "srvGet srv (calls w) [] (apiURL @ ''/my/identity.json'') = Inr resp"
    and "Data resp = JObj data"
    and "map_of data ''accounts'' = Some (JArr accounts)"
    and "hasAccess accounts sourceAccount" and "hasAccess accounts targetAccount"
  shows "verifyAccountAccess srv apiURL sourceAccount targetAccount w =
           (None, record_call (Get [] (apiURL @ ''/my/identity.json'')) w)"
  using assms
  by (simp add: verifyAccountAccess_def clientGet_def scanAccounts_hasAccess)

text \<open>
  C7 (as amended): an account is accessible when some returned account object has a slug
  that equals it either after one leading \<^verbatim>\<open>/\<close> is stripped from the returned slug or
  as it is. When the identity request returns the list of accounts, the verifier fails
  with the error that names the source account when the source is not accessible,
  whatever holds of the target; it fails with the error that names the target account
  when only the target is not accessible; it succeeds otherwise. One request is made.
\<close>

theorem verifyAccountAccess_result:
  assumes "srvGet srv (calls w) [] (apiURL @ ''/my/identity.json'') = Inr resp"
    and "Data resp = JObj data"
    and "map_of data ''accounts'' = Some (JArr accounts)"
  shows "verifyAccountAccess srv apiURL sourceAccount targetAccount w =
           (if \<not> hasAccess accounts sourceAccount then
              Some (''You don't have access to source account '' @ [sq] @ sourceAccount @ [sq])
            else if \<not> hasAccess accounts targetAccount then
              Some (''You don't have access to target account '' @ [sq] @ targetAccount @ [sq])
            else None,
            record_call (Get [] (apiURL @ ''/my/identity.json'')) w)"
  using assms
  by (simp add: verifyAccountAccess_def clientGet_def scanAccounts_hasAccess)


definition emptyWorld :: world where
  "emptyWorld = \<lparr>calls = [], stderr = [], removed = []\<rparr>"

definition okResponse :: "json \<Rightarrow> string + APIResponse" where
  "okResponse d = Inr \<lparr>Data = d, Location = []\<rparr>"

text \<open>A server that knows one identity and otherwise accepts everything with an empty answer.\<close>

definition identityServer :: "json list \<Rightarrow> server" where
  "identityServer accounts =
     \<lparr>srvGet = (\<lambda>h c path. okResponse (JObj [(''accounts'', JArr accounts)])),
      srvGetWithPagination = (\<lambda>h c path. okResponse (JArr [])),
      srvPost = (\<lambda>h c path body. okResponse JNull),
      srvPatch = (\<lambda>h c path body. okResponse JNull),
      srvFollowLocation = (\<lambda>h c location. Inr None),
      srvDownloadFile = (\<lambda>h c url dest. None),
      srvUploadFile = (\<lambda>h c path. okResponse JNull)\<rparr>"

theorem verifyAccountAccess_result_witness:
  "fst (verifyAccountAccess (identityServer [JObj [(''slug'', JStr ''/acme'')], JObj [(''slug'', JStr ''zeta'')]])
          ''https://api'' ''acme'' ''zeta'' emptyWorld) = None
   \<and> fst (verifyAccountAccess (identityServer [JObj [(''slug'', JStr ''/acme'')]])
          ''https://api'' ''acme'' ''zeta'' emptyWorld)
       = Some (''You don't have access to target account '' @ [sq] @ ''zeta'' @ [sq])"
proof -
  let ?a1 = "[JObj [(''slug'', JStr ''/acme'')], JObj [(''slug'', JStr ''zeta'')]]"
  let ?a2 = "[JObj [(''slug'', JStr ''/acme'')]]"
  have g: "\<And>accounts. srvGet (identityServer accounts) (calls emptyWorld) [] (''https://api'' @ ''/my/identity.json'')
             = Inr \<lparr>Data = JObj [(''accounts'', JArr accounts)], Location = []\<rparr>"
    by (simp add: identityServer_def okResponse_def)
  have h1: "hasAccess ?a1 ''acme''" "hasAccess ?a1 ''zeta''" by code_simp+
  have h2: "hasAccess ?a2 ''acme''" "\<not> hasAccess ?a2 ''zeta''" by code_simp+
  from verifyAccountAccess_result [OF g, where data = "[(''accounts'', JArr ?a1)]" and accounts = ?a1
      and sourceAccount = "''acme''" and targetAccount = "''zeta''"] h1
  have 1: "fst (verifyAccountAccess (identityServer ?a1) ''https://api'' ''acme'' ''zeta'' emptyWorld) = None"
    by simp
  from verifyAccountAccess_result [OF g, where data = "[(''accounts'', JArr ?a2)]" and accounts = ?a2
      and sourceAccount = "''acme''" and targetAccount = "''zeta''"] h2
  have 2: "fst (verifyAccountAccess (identityServer ?a2) ''https://api'' ''acme'' ''zeta'' emptyWorld)
       = Some (''You don't have access to target account '' @ [sq] @ ''zeta'' @ [sq])"
    by simp
  from 1 2 show ?thesis by blast
qed

text \<open>
  C7 as stated fails: when neither account is accessible the error names the source
  account only, and the target account does not occur in it.
\<close>

theorem verifyAccountAccess_both_counterexample:
  "\<not> hasAccess [JObj [(''slug'', JStr ''/other'')]] ''acme''
   \<and> \<not> hasAccess [JObj [(''slug'', JStr ''/other'')]] ''zeta''
   \<and> fst (verifyAccountAccess (identityServer [JObj [(''slug'', JStr ''/other'')]])
          ''https://api'' ''acme'' ''zeta'' emptyWorld)
       = Some (''You don't have access to source account '' @ [sq] @ ''acme'' @ [sq])
   \<and> \<not> sublist ''zeta'' (''You don't have access to source account '' @ [sq] @ ''acme'' @ [sq])"
  by code_simp


section \<open>The replacement of an sgid\<close>

lemma cutFirst_None: "cutFirst sep s = None \<Longrightarrow> \<not> sublist sep s"
proof (induction s)
  case Nil
  then show ?case by (simp split: if_splits)
next
  case (Cons c cs)
  then have "\<not> prefix sep (c # cs)" and "cutFirst sep cs = None"
    by (auto split: if_splits option.splits)
  with Cons.IH show ?case by (simp add: sublist_Cons_right)
qed

lemma cutFirst_first:
  "cutFirst sep s = Some (b, a) \<Longrightarrow> s = b' @ sep @ a' \<Longrightarrow> length b \<le> length b'"
proof (induction s arbitrary: b b')
  case Nil
  then show ?case by (simp split: if_splits)
next
  case (Cons c cs)
  show ?case
  proof (cases "prefix sep (c # cs)")
    case True
    with Cons.prems(1) show ?thesis by simp
  next
    case False
    with Cons.prems(1) obtain b1 where c: "cutFirst sep cs = Some (b1, a)" and b: "b = c # b1"
      by (auto split: option.splits)
    from False Cons.prems(2) have "b' \<noteq> []" by (auto simp: prefix_def)
    with Cons.prems(2) obtain b1' where b': "b' = c # b1'" and cs: "cs = b1' @ sep @ a'"
      by (cases b') auto
    from Cons.IH [OF c cs] b b' show ?thesis by simp
  qed
qed

lemma replaceFirst_cases:
  "(\<not> sublist old s \<and> replaceFirst s old new = s)
   \<or> (\<exists>before after. s = before @ old @ after \<and> replaceFirst s old new = before @ new @ after
        \<and> (\<forall>b' a'. s = b' @ old @ a' \<longrightarrow> length before \<le> length b'))"
proof (cases "cutFirst old s")
  case None
  then show ?thesis by (simp add: replaceFirst_def cutFirst_None)
next
  case (Some p)
  obtain b a where p: "p = (b, a)" by (cases p)
  from Some p have c: "cutFirst old s = Some (b, a)" by simp
  have "s = b @ old @ a" by (rule cutFirst_Some [OF c])
  moreover have "replaceFirst s old new = b @ new @ a" by (simp add: replaceFirst_def c)
  moreover have "\<forall>b' a'. s = b' @ old @ a' \<longrightarrow> length b \<le> length b'"
    using cutFirst_first [OF c] by blast
  ultimately show ?thesis by blast
qed

text \<open>
  C5 (as amended): for an attachment that is downloaded and uploaded, with a new sgid and
  an old sgid that are not empty, the count goes up by one and the first occurrence of
  the old sgid in the text is replaced by the new one, every character before and after
  that occurrence being kept; a text without the old sgid is kept as it is.
\<close>

theorem migrateInlineOne_replaces_first:
  assumes tmp: "tempFile = attachmentTempFile cfg a"
    and url: "DownloadURL a \<noteq> []"
    and dl: "srvDownloadFile srv (calls w) sourceClient (DownloadURL a) tempFile = None"
    and ul: "srvUploadFile srv (calls w @ [DownloadFile sourceClient (DownloadURL a) tempFile])
               targetClient tempFile = Inr resp"
    and data: "Data resp = JObj uploadData"
    and new: "newSGID = (if getStringField uploadData ''attachable_sgid'' = []
                         then getStringField uploadData ''signed_id''
                         else getStringField uploadData ''attachable_sgid'')"
    and ne: "newSGID \<noteq> []" and old: "SGID a \<noteq> []"
  shows "\<exists>result' w'.
           migrateInlineOne srv cfg sourceClient targetClient a (result, n, w) = (result', n + 1, w')
           \<and> ((\<not> sublist (SGID a) result \<and> result' = result)
                \<or> (\<exists>before after.
                      result = before @ SGID a @ after \<and> result' = before @ newSGID @ after
                      \<and> (\<forall>b' a'. result = b' @ SGID a @ a' \<longrightarrow> length before \<le> length b')))"
proof -
  have "migrateInlineOne srv cfg sourceClient targetClient a (result, n, w)
        = (replaceFirst result (SGID a) newSGID, n + 1,
           osRemove tempFile (record_call (UploadFile targetClient tempFile)
             (record_call (DownloadFile sourceClient (DownloadURL a) tempFile) w)))"
    using url dl ul data ne old
    by (simp add: migrateInlineOne_def Let_def clientDownloadFile_def clientUploadFile_def
        record_call_def tmp [symmetric] new [symmetric])
  with replaceFirst_cases [of "SGID a" result newSGID] show ?thesis by auto
qed

section \<open>Calls are only ever added\<close>

lemma calls_logf [simp]: "calls (logf msg w) = calls w"
  by (simp add: logf_def)

lemma calls_osRemove [simp]: "calls (osRemove path w) = calls w"
  by (simp add: osRemove_def)

lemma calls_record_call [simp]: "calls (record_call c w) = calls w @ [c]"
  by (simp add: record_call_def)

lemma stderr_record_call [simp]: "stderr (record_call c w) = stderr w"
  by (simp add: record_call_def)

lemma stderr_osRemove [simp]: "stderr (osRemove path w) = stderr w"
  by (simp add: osRemove_def)

lemma stderr_logf [simp]: "stderr (logf msg w) = stderr w @ [msg]"
  by (simp add: logf_def)

definition grows :: "world \<Rightarrow> world \<Rightarrow> bool" where
  "grows w w' = prefix (calls w) (calls w')"

lemma grows_refl [simp]: "grows w w"
  by (simp add: grows_def)

lemma grows_trans: "grows w w' \<Longrightarrow> grows w' w'' \<Longrightarrow> grows w w''"
  unfolding grows_def by (rule prefix_order.trans)

lemma grows_logf [simp]: "grows w (logf msg w') = grows w w'"
  by (simp add: grows_def)

lemma grows_logf_left [simp]: "grows (logf msg w) w' = grows w w'"
  by (simp add: grows_def)

lemma grows_osRemove [simp]: "grows w (osRemove p w') = grows w w'"
  by (simp add: grows_def)

lemma grows_record_call: "grows w w' \<Longrightarrow> grows w (record_call c w')"
  by (simp add: grows_def prefix_def) auto

lemma grows_record_call_self [simp]: "grows w (record_call c w)"
  by (simp add: grows_record_call)

lemma grows_post: "grows w (snd (clientPost srv c p b w))"
  by (simp add: clientPost_def)

lemma migrateInlineOne_grows:
  "grows w (snd (snd (migrateInlineOne srv cfg sc tc a (result, n, w))))"
  by (simp add: migrateInlineOne_def Let_def clientDownloadFile_def clientUploadFile_def
      grows_record_call split: option.splits sum.splits json.splits)

lemma migrateInlineLoop_grows:
  "grows (snd (snd st)) (snd (snd (migrateInlineLoop srv cfg sc tc as st)))"
proof (induction as arbitrary: st)
  case Nil
  show ?case by simp
next
  case (Cons a as)
  obtain result n w where st: "st = (result, n, w)" by (cases st)
  have "grows w (snd (snd (migrateInlineOne srv cfg sc tc a (result, n, w))))"
    by (rule migrateInlineOne_grows)
  with Cons.IH [of "migrateInlineOne srv cfg sc tc a (result, n, w)"] show ?case
    by (auto simp: st intro: grows_trans)
qed

lemma migrateInlineAttachments_grows:
  "grows w (snd (snd (migrateInlineAttachments srv cfg sc tc html w)))"
  using migrateInlineLoop_grows [of "(html, 0, w)" srv cfg sc tc "parseAttachments html"]
  by (simp add: migrateInlineAttachments_def Let_def)

lemma applyTags_grows: "grows w (snd (applyTags srv tc num tags stats w))"
proof (induction tags arbitrary: stats w)
  case Nil
  show ?case by simp
next
  case (Cons tag tags)
  show ?case
  proof (cases tag)
    case (JStr tagName)
    have a: "\<And>st w'. grows w w' \<Longrightarrow> grows w (snd (applyTags srv tc num tags st w'))"
      using Cons.IH grows_trans by blast
    show ?thesis
      by (auto simp: JStr applyTag_def clientPost_def Let_def intro!: a split: option.splits)
  qed (simp_all add: Cons.IH)
qed

lemma cardTags_grows: "grows w (snd (cardTags srv tc sourceCard num stats w))"
  by (simp add: cardTags_def applyTags_grows split: option.splits json.splits)

lemma placeCard_grows: "grows w (placeCard srv tc sourceCard num cm w)"
  by (simp add: placeCard_def moveToColumn_def clientPost_def Let_def split: option.splits)

lemma applyCardState_grows: "grows w (applyCardState srv tc sourceCard num w)"
  by (auto simp: applyCardState_def closeCard_def markGolden_def clientPost_def Let_def
      intro: grows_record_call split: option.splits)

lemma migrateCommentsLoop_grows:
  "grows w (snd (migrateCommentsLoop srv cfg sc tc num comments created w))"
proof (induction comments arbitrary: created w)
  case Nil
  show ?case by simp
next
  case (Cons comment comments)
  have a: "\<And>n w'. grows w w' \<Longrightarrow> grows w (snd (migrateCommentsLoop srv cfg sc tc num comments n w'))"
    using Cons.IH grows_trans by blast
  show ?case
  proof (cases comment)
    case (JObj commentMap)
    obtain bodyContent bodyHTML where cb: "commentBody commentMap = (bodyContent, bodyHTML)"
      by (cases "commentBody commentMap")
    obtain md k wi where mi: "migrateInlineAttachments srv cfg sc tc bodyHTML w = (md, k, wi)"
      by (cases "migrateInlineAttachments srv cfg sc tc bodyHTML w") auto
    have gi: "grows w wi" using migrateInlineAttachments_grows [of w srv cfg sc tc bodyHTML] mi by simp
    show ?thesis
      using gi
      by (auto simp: JObj cb mi Let_def clientPost_def Cons.IH intro!: a grows_record_call
          split: sum.splits)
  qed (simp_all add: Cons.IH)
qed

lemma migrateComments_grows:
  "grows w (snd (migrateComments srv cfg sc tc snum num w))"
proof -
  have a: "\<And>comments w'. grows w w' \<Longrightarrow> grows w (snd (migrateCommentsLoop srv cfg sc tc num comments 0 w'))"
    using migrateCommentsLoop_grows grows_trans by blast
  show ?thesis
    by (auto simp: migrateComments_def clientGetWithPagination_def Let_def split_beta
        intro!: a split: sum.splits json.splits)
qed

lemma migrateStepsLoop_grows:
  "grows w (snd (migrateStepsLoop srv tc num steps created w))"
proof (induction steps arbitrary: created w)
  case Nil
  show ?case by simp
next
  case (Cons step steps)
  have a: "\<And>n w'. grows w w' \<Longrightarrow> grows w (snd (migrateStepsLoop srv tc num steps n w'))"
    using Cons.IH grows_trans by blast
  show ?case
  proof (cases step)
    case (JObj stepMap)
    show ?thesis
      by (auto simp: JObj Let_def clientPost_def Cons.IH intro!: a split: sum.splits)
  qed (simp_all add: Cons.IH)
qed

lemma migrateSteps_grows: "grows w (snd (migrateSteps srv tc sourceCard num w))"
  by (simp add: migrateSteps_def migrateStepsLoop_grows split: option.splits json.splits)

lemma migrateCardImage_grows:
  "grows w (snd (migrateCardImage srv cfg sc tc url num w))"
  by (auto simp: migrateCardImage_def Let_def clientDownloadFile_def clientUploadFile_def
      clientPatch_def intro!: grows_record_call split: option.splits sum.splits json.splits)

lemma cardComments_grows:
  "grows w (snd (cardComments srv cfg sc tc snum num stats w))"
proof -
  obtain created e w1 where c: "migrateComments srv cfg sc tc (itoa snum) num w = ((created, e), w1)"
    by (cases "migrateComments srv cfg sc tc (itoa snum) num w") auto
  have "grows w w1" using migrateComments_grows [of w srv cfg sc tc "itoa snum" num] c by simp
  then show ?thesis by (simp add: cardComments_def c split: option.splits)
qed

lemma cardSteps_grows:
  "grows w (snd (cardSteps srv cfg tc sourceCard num stats w))"
  using migrateSteps_grows [of w srv tc sourceCard num]
  by (simp add: cardSteps_def split_beta)

lemma cardImage_grows:
  "grows w (snd (cardImage srv cfg sc tc sourceCard num stats w))"
proof -
  obtain e w1 where c: "migrateCardImage srv cfg sc tc (getStringField sourceCard ''image_url'') num w = (e, w1)"
    by (cases "migrateCardImage srv cfg sc tc (getStringField sourceCard ''image_url'') num w")
  have "grows w w1"
    using migrateCardImage_grows [of w srv cfg sc tc "getStringField sourceCard ''image_url''" num] c
    by simp
  then show ?thesis by (simp add: cardImage_def c Let_def split: option.splits)
qed

section \<open>The sgid of an attachment stays where it is quoted\<close>

lemma append_split:
  "xs @ ys = zs @ ts \<Longrightarrow> (\<exists>us. xs = zs @ us \<and> us @ ys = ts) \<or> (\<exists>us. xs @ us = zs \<and> ys = us @ ts)"
  by (simp add: append_eq_append_conv2) blast

lemma replaceFirst_keeps_quoted:
  assumes q: "sublist (dq # S @ [dq]) r" and nq: "dq \<notin> set old" and ne: "old \<noteq> []"
    and ns: "\<not> sublist old S"
  shows "sublist (dq # S @ [dq]) (replaceFirst r old new)"
proof (cases "cutFirst old r")
  case None
  with q show ?thesis by (simp add: replaceFirst_def)
next
  case (Some p)
  obtain b a where p: "p = (b, a)" by (cases p)
  from Some p have c: "cutFirst old r = Some (b, a)" by simp
  have r: "r = b @ old @ a" by (rule cutFirst_Some [OF c])
  have res: "replaceFirst r old new = b @ new @ a" by (simp add: replaceFirst_def c)
  define Q where "Q = dq # S @ [dq]"
  have Qne: "Q \<noteq> []" and hdQ: "hd Q = dq" and lastQ: "last Q = dq" by (simp_all add: Q_def)
  from q obtain u v where uv: "r = u @ Q @ v" unfolding sublist_def Q_def by blast
  have hdold: "hd old \<noteq> dq" using nq ne by (cases old) auto
  have lastold: "last old \<noteq> dq" using nq ne last_in_set by metis
  from r uv have eq: "b @ (old @ a) = u @ (Q @ v)" by simp
  have goal: "sublist Q (b @ new @ a)"
  proof -
    from append_split [OF eq] consider w where "b = u @ w" "w @ (old @ a) = Q @ v"
      | w where "b @ w = u" "old @ a = w @ (Q @ v)"
      by blast
    then show ?thesis
    proof cases
      case 1
      from append_split [OF 1(2)] consider x where "w = Q @ x"
        | x where "w @ x = Q" "old @ a = x @ v" "x \<noteq> []"
        by (metis append.right_neutral)
      then show ?thesis
      proof cases
        case 1
        with \<open>b = u @ w\<close> have "b @ new @ a = u @ Q @ (x @ new @ a)" by simp
        then show ?thesis unfolding sublist_def by blast
      next
        case 2
        from append_split [OF 2(2)] consider y where "old = x @ y" | y where "old @ y = x"
          by blast
        then show ?thesis
        proof cases
          case 1
          from 2(1,3) lastQ have "last x = dq" by (metis last_appendR)
          with 2(3) have "dq \<in> set x" using last_in_set by metis
          with 1 nq show ?thesis by simp
        next
          case 2
          with \<open>w @ x = Q\<close> have Qd: "Q = w @ old @ y" by simp
          have "w \<noteq> []"
          proof
            assume "w = []"
            with Qd ne have "hd Q = hd old" by simp
            with hdQ hdold show False by simp
          qed
          moreover have "y \<noteq> []"
          proof
            assume "y = []"
            with Qd ne have "last Q = last old" by simp
            with lastQ lastold show False by simp
          qed
          ultimately obtain w' y' where w': "w = dq # w'" and y': "y = y' @ [dq]"
            using Qd hdQ lastQ
            by (metis append_butlast_last_id hd_append2 last_appendR list.collapse append_is_Nil_conv)
          from Qd w' y' have "dq # S @ [dq] = dq # (w' @ old @ y') @ [dq]" by (simp add: Q_def)
          then have "S = w' @ old @ y'" by simp
          then have "sublist old S" unfolding sublist_def by blast
          with ns show ?thesis by simp
        qed
      qed
    next
      case 2
      from append_split [OF 2(2)] consider x where "old = w @ x" "x @ a = Q @ v" | x where "a = x @ Q @ v"
        by blast
      then show ?thesis
      proof cases
        case 1
        show ?thesis
        proof (cases "x = []")
          case True
          with 1 have "b @ new @ a = (b @ new) @ Q @ v" by simp
          then show ?thesis unfolding sublist_def by blast
        next
          case False
          with 1(2) Qne have "hd x = hd Q" by (metis hd_append2)
          with hdQ False have "dq \<in> set x" using hd_in_set by metis
          with 1(1) nq show ?thesis by simp
        qed
      next
        case 2
        then have "b @ new @ a = (b @ new @ x) @ Q @ v" by simp
        then show ?thesis unfolding sublist_def by blast
      qed
    qed
  qed
  then show ?thesis by (simp add: res Q_def)
qed


lemma matchAttachmentAt_sound:
  assumes "matchAttachmentAt s = Some (attrs, content, rest)"
  shows "\<exists>ws. s = openTag @ ws @ attrs @ ''>'' @ content @ closeTag @ rest"
proof -
  from assms have p: "prefix openTag s"
    by (auto simp: matchAttachmentAt_def split: if_splits)
  define r where "r = drop (length openTag) s"
  from p have s: "s = openTag @ r" by (auto simp: r_def prefix_def)
  define ws where "ws = takeWhile isSpace r"
  have r: "r = ws @ dropWhile isSpace r" by (simp add: ws_def)
  from assms p obtain c cs where a: "dropWhile isSpace r = c # cs"
    by (auto simp: matchAttachmentAt_def Let_def r_def split: if_splits list.splits)
  show ?thesis
  proof (cases "c = CHR ''>''")
    case True
    with assms p a have c: "cutFirst closeTag cs = Some (content, rest)" and at: "attrs = [last ws]"
      and ne: "ws \<noteq> []"
      by (auto simp: matchAttachmentAt_def Let_def r_def ws_def split: if_splits option.splits)
    from cutFirst_Some [OF c] have "cs = content @ closeTag @ rest" .
    with r a True at ne have "r = butlast ws @ attrs @ ''>'' @ content @ closeTag @ rest"
      by (metis append_butlast_last_id append_Cons append_Nil append_assoc)
    with s show ?thesis by blast
  next
    case False
    with assms p a obtain g r3 where d: "dropWhile (\<lambda>x. x \<noteq> CHR ''>'') (c # cs) = g # r3"
      and c: "cutFirst closeTag r3 = Some (content, rest)"
      and at: "attrs = takeWhile (\<lambda>x. x \<noteq> CHR ''>'') (c # cs)"
      by (auto simp: matchAttachmentAt_def Let_def r_def split: if_splits option.splits list.splits)
    from d have "g = CHR ''>''"
      using hd_dropWhile [of "\<lambda>x. x \<noteq> CHR ''>''" "c # cs"] by (metis list.sel(1) list.distinct(1))
    moreover have "c # cs = takeWhile (\<lambda>x. x \<noteq> CHR ''>'') (c # cs) @ dropWhile (\<lambda>x. x \<noteq> CHR ''>'') (c # cs)"
      by simp
    moreover from cutFirst_Some [OF c] have "r3 = content @ closeTag @ rest" .
    ultimately have "c # cs = attrs @ ''>'' @ content @ closeTag @ rest"
      using d at by simp
    with r a have "r = ws @ attrs @ ''>'' @ content @ closeTag @ rest" by simp
    with s show ?thesis by blast
  qed
qed

lemma sublist_appendI: "sublist xs ys \<Longrightarrow> sublist xs (ps @ ys @ ss)"
proof -
  assume "sublist xs ys"
  then obtain p q where "ys = p @ xs @ q" unfolding sublist_def by blast
  then have "ps @ ys @ ss = (ps @ p) @ xs @ (q @ ss)" by simp
  then show ?thesis unfolding sublist_def by blast
qed

lemma findAll_sublist:
  "(attrs, content) \<in> set (findAllAttachments s) \<Longrightarrow> sublist attrs s"
proof (induction s rule: findAllAttachments.induct)
  case (1 s)
  show ?case
  proof (cases "s = []")
    case True
    with "1.prems" show ?thesis by (simp add: findAllAttachments.simps [of "[]"])
  next
    case False
    show ?thesis
    proof (cases "matchAttachmentAt s")
      case None
      with False "1.prems" have "(attrs, content) \<in> set (findAllAttachments (tl s))"
        by (subst (asm) findAllAttachments.simps) simp
      from "1.IH"(1) [OF False None this] have "sublist attrs (tl s)" .
      then have "sublist attrs ([hd s] @ tl s @ [])" by (rule sublist_appendI)
      with False show ?thesis by simp
    next
      case (Some m)
      obtain ats ct rest where m: "m = (ats, ct, rest)" by (cases m)
      from matchAttachmentAt_sound [of s ats ct rest] Some m obtain ws
        where s: "s = openTag @ ws @ ats @ ''>'' @ ct @ closeTag @ rest" by auto
      from False Some m "1.prems"
      have "(attrs, content) = (ats, ct) \<or> (attrs, content) \<in> set (findAllAttachments rest)"
        by (subst (asm) findAllAttachments.simps) auto
      then show ?thesis
      proof
        assume "(attrs, content) = (ats, ct)"
        then have "s = (openTag @ ws) @ attrs @ (''>'' @ ct @ closeTag @ rest)" using s by simp
        then show ?thesis unfolding sublist_def by blast
      next
        assume "(attrs, content) \<in> set (findAllAttachments rest)"
        from "1.IH"(2) [OF False Some m [symmetric] refl this]
        have "sublist attrs rest" .
        then have "sublist attrs ((openTag @ ws @ ats @ ''>'' @ ct @ closeTag) @ rest @ [])"
          by (rule sublist_appendI)
        with s show ?thesis by simp
      qed
    qed
  qed
qed

lemma extractAttr_no_quote: "dq \<notin> set (extractAttr attrs name)"
  by (auto simp: extractAttr_def split: option.splits dest: set_takeWhileD)

lemma extractAttr_quoted:
  assumes "extractAttr attrs name \<noteq> []"
  shows "sublist (dq # extractAttr attrs name @ [dq]) attrs"
proof -
  from assms obtain b rest where c: "cutFirst (name @ ''='' @ [dq]) attrs = Some (b, rest)"
    and q: "dq \<in> set rest" and v: "extractAttr attrs name = takeWhile (\<lambda>c. c \<noteq> dq) rest"
    by (auto simp: extractAttr_def split: option.splits if_splits)
  from q have ne: "dropWhile (\<lambda>c. c \<noteq> dq) rest \<noteq> []" by simp
  then obtain d post where d: "dropWhile (\<lambda>c. c \<noteq> dq) rest = d # post"
    by (cases "dropWhile (\<lambda>c. c \<noteq> dq) rest") auto
  from hd_dropWhile [OF ne] d have "d = dq" by simp
  with d v have rest: "rest = extractAttr attrs name @ dq # post"
    using takeWhile_dropWhile_id [of "\<lambda>c. c \<noteq> dq" rest] by simp
  from cutFirst_Some [OF c] have "attrs = b @ (name @ ''='' @ [dq]) @ rest" .
  with rest have "attrs = (b @ name @ ''='') @ (dq # extractAttr attrs name @ [dq]) @ post"
    by simp
  then show ?thesis unfolding sublist_def by blast
qed

lemma buildAttachments_elem:
  "a \<in> set (buildAttachments i ms) \<Longrightarrow> \<exists>j attrs content. (attrs, content) \<in> set ms \<and> a = parseMatch j attrs content"
proof (induction i ms rule: buildAttachments.induct)
  case (1 i)
  then show ?case by simp
next
  case (2 i attrs content ms)
  then show ?case by (auto 4 3)
qed

lemma parseAttachments_elem:
  assumes "a \<in> set (parseAttachments html)"
  shows "\<exists>j attrs content. (attrs, content) \<in> set (findAllAttachments html) \<and> a = parseMatch j attrs content"
proof -
  from assms have "a \<in> set (buildAttachments 0 (filter downloadable (findAllAttachments html)))"
    by (simp add: parseAttachments_filter)
  from buildAttachments_elem [OF this] show ?thesis by auto
qed

lemma parseAttachments_SGID:
  assumes "a \<in> set (parseAttachments html)"
  shows "dq \<notin> set (SGID a)" and "SGID a \<noteq> [] \<Longrightarrow> sublist (dq # SGID a @ [dq]) html"
proof -
  from parseAttachments_elem [OF assms] obtain j attrs content
    where m: "(attrs, content) \<in> set (findAllAttachments html)" and a: "a = parseMatch j attrs content"
    by blast
  have sg: "SGID a = extractAttr attrs ''sgid''" by (simp add: a parseMatch_def)
  show "dq \<notin> set (SGID a)" unfolding sg by (rule extractAttr_no_quote)
  show "sublist (dq # SGID a @ [dq]) html" if "SGID a \<noteq> []"
  proof -
    from that have "sublist (dq # SGID a @ [dq]) attrs" unfolding sg by (rule extractAttr_quoted)
    moreover from findAll_sublist [OF m] have "sublist attrs html" .
    ultimately show ?thesis by (rule sublist_order.order.trans)
  qed
qed

definition attachmentFails :: "server \<Rightarrow> settings \<Rightarrow> string \<Rightarrow> string \<Rightarrow> Attachment \<Rightarrow> bool" where
  "attachmentFails srv cfg sourceClient targetClient a =
     ((\<forall>h. srvDownloadFile srv h sourceClient (DownloadURL a) (attachmentTempFile cfg a) \<noteq> None)
      \<or> (\<forall>h. isl (srvUploadFile srv h targetClient (attachmentTempFile cfg a))))"

lemma migrateInlineOne_fails:
  assumes "attachmentFails srv cfg sc tc f"
  shows "\<exists>w'. migrateInlineOne srv cfg sc tc f (r, n, w) = (r, n, w')"
proof (cases "DownloadURL f = []")
  case True
  then show ?thesis by (simp add: migrateInlineOne_def)
next
  case False
  show ?thesis
  proof (cases "srvDownloadFile srv (calls w) sc (DownloadURL f) (attachmentTempFile cfg f)")
    case (Some err)
    with False show ?thesis by (simp add: migrateInlineOne_def Let_def clientDownloadFile_def)
  next
    case None
    with assms have "\<forall>h. isl (srvUploadFile srv h tc (attachmentTempFile cfg f))"
      unfolding attachmentFails_def by blast
    then obtain e where "srvUploadFile srv (calls w @ [DownloadFile sc (DownloadURL f) (attachmentTempFile cfg f)])
                           tc (attachmentTempFile cfg f) = Inl e"
      by (metis isl_def)
    with False None show ?thesis
      by (simp add: migrateInlineOne_def Let_def clientDownloadFile_def clientUploadFile_def)
  qed
qed

lemma migrateInlineOne_cases:
  "(\<exists>w'. migrateInlineOne srv cfg sc tc a (r, n, w) = (r, n, w'))
   \<or> (\<exists>w' new. new \<noteq> [] \<and> SGID a \<noteq> []
         \<and> migrateInlineOne srv cfg sc tc a (r, n, w) = (replaceFirst r (SGID a) new, n + 1, w'))"
  by (auto simp: migrateInlineOne_def Let_def clientDownloadFile_def clientUploadFile_def
      split: option.splits sum.splits json.splits)

lemma replaceFirst_nonempty: "r \<noteq> [] \<Longrightarrow> new \<noteq> [] \<Longrightarrow> replaceFirst r old new \<noteq> []"
  by (simp add: replaceFirst_def split: option.splits)

lemma migrateInlineLoop_count:
  assumes "attachmentFails srv cfg sc tc f"
  shows "\<exists>r' n' w'. migrateInlineLoop srv cfg sc tc as (r, n, w) = (r', n', w')
           \<and> n \<le> n' \<and> n' \<le> n + int (length as)
           \<and> (f \<in> set as \<longrightarrow> n' < n + int (length as))"
proof (induction as arbitrary: r n w)
  case Nil
  show ?case by simp
next
  case (Cons a as)
  show ?case
  proof (cases "a = f")
    case True
    from migrateInlineOne_fails [OF assms, of r n w] obtain w1
      where s: "migrateInlineOne srv cfg sc tc a (r, n, w) = (r, n, w1)" using True by blast
    from Cons.IH [of r n w1] obtain r' n' w'
      where "migrateInlineLoop srv cfg sc tc as (r, n, w1) = (r', n', w')"
        "n \<le> n'" "n' \<le> n + int (length as)"
      by blast
    with s show ?thesis by simp
  next
    case False
    from migrateInlineOne_cases [of srv cfg sc tc a r n w]
    obtain r1 n1 w1 where s: "migrateInlineOne srv cfg sc tc a (r, n, w) = (r1, n1, w1)"
      and n1: "n1 = n \<or> n1 = n + 1"
      by blast
    from Cons.IH [of r1 n1 w1] obtain r' n' w'
      where "migrateInlineLoop srv cfg sc tc as (r1, n1, w1) = (r', n', w')"
        "n1 \<le> n'" "n' \<le> n1 + int (length as)"
        "f \<in> set as \<longrightarrow> n' < n1 + int (length as)"
      by blast
    with s n1 False show ?thesis by auto
  qed
qed

lemma migrateInlineLoop_keeps:
  assumes "\<forall>a\<in>set as. dq \<notin> set (SGID a)"
    and "\<forall>a\<in>set as. a \<noteq> f \<and> SGID a \<noteq> [] \<longrightarrow> \<not> sublist (SGID a) (SGID f)"
    and "attachmentFails srv cfg sc tc f"
    and "sublist (dq # SGID f @ [dq]) r"
  shows "sublist (dq # SGID f @ [dq]) (fst (migrateInlineLoop srv cfg sc tc as (r, n, w)))"
  using assms
proof (induction as arbitrary: r n w)
  case Nil
  then show ?case by simp
next
  case (Cons a as)
  have ih: "\<And>r n w. sublist (dq # SGID f @ [dq]) r \<Longrightarrow>
      sublist (dq # SGID f @ [dq]) (fst (migrateInlineLoop srv cfg sc tc as (r, n, w)))"
    using Cons.IH Cons.prems(1,2,3) by simp
  show ?case
  proof (cases "a = f")
    case True
    from migrateInlineOne_fails [OF Cons.prems(3), of r n w] obtain w1
      where s: "migrateInlineOne srv cfg sc tc a (r, n, w) = (r, n, w1)" using True by blast
    from ih [OF Cons.prems(4), of n w1] s show ?thesis by simp
  next
    case False
    from migrateInlineOne_cases [of srv cfg sc tc a r n w]
    consider w1 where "migrateInlineOne srv cfg sc tc a (r, n, w) = (r, n, w1)"
      | w1 new where "new \<noteq> []" "SGID a \<noteq> []"
          "migrateInlineOne srv cfg sc tc a (r, n, w) = (replaceFirst r (SGID a) new, n + 1, w1)"
      by blast
    then show ?thesis
    proof cases
      case 1
      from ih [OF Cons.prems(4), of n w1] 1 show ?thesis by simp
    next
      case 2
      from Cons.prems(1) have nq: "dq \<notin> set (SGID a)" by simp
      from Cons.prems(2) False 2(2) have ns: "\<not> sublist (SGID a) (SGID f)" by simp
      have k: "sublist (dq # SGID f @ [dq]) (replaceFirst r (SGID a) new)"
        by (rule replaceFirst_keeps_quoted [OF Cons.prems(4) nq 2(2) ns])
      from ih [OF k, of "n + 1" w1] 2 show ?thesis by simp
    qed
  qed
qed

section \<open>The description of the created card\<close>

lemma createTargetCard_calls:
  "prefix (calls w @ [Post tc ''/cards.json'' body]) (calls (snd (createTargetCard srv tc body w)))"
  by (simp add: createTargetCard_def clientPost_def clientFollowLocation_def Let_def split_beta
      split: sum.splits)

lemma parseAttachments_Nil [simp]: "parseAttachments [] = []"
  by (simp add: parseAttachments_def findAllAttachments.simps [of "[]"])

lemma cardDescription_eq:
  assumes "migrateBoardIncludeImages cfg"
    and "getStringField sourceCard ''description_html'' = html"
    and "migrateInlineAttachments srv cfg sc tc html w = (migratedDesc, n, w1)"
  shows "cardDescription srv cfg sc tc sourceCard stats w =
           (if n > 0 then migratedDesc else getStringField sourceCard ''description'',
            if n > 0 then stats\<lparr>imagesMigrated := imagesMigrated stats + n\<rparr> else stats, w1)"
proof (cases "html = []")
  case True
  with assms(3) have "n = 0" "w1 = w" by (simp_all add: migrateInlineAttachments_def)
  with assms(1,2) True show ?thesis by (simp add: cardDescription_def)
next
  case False
  with assms show ?thesis by (simp add: cardDescription_def)
qed

lemma migrateCard_creation:
  assumes cd: "cardDescription srv cfg sc tc sourceCard stats w = (description, stats1, w1)"
    and body: "body = cardRequestBody tb (getStringField sourceCard ''title'') description
                        (getStringField sourceCard ''created_at'')"
  shows "fst (migrateCard srv cfg sc tc sourceCard tb cm stats w) = fst (createTargetCard srv tc body w1)"
    and "prefix (calls w1 @ [Post tc ''/cards.json'' body])
           (calls (snd (snd (migrateCard srv cfg sc tc sourceCard tb cm stats w))))"
proof -
  obtain r w2 where ct: "createTargetCard srv tc body w1 = (r, w2)"
    by (cases "createTargetCard srv tc body w1")
  have p2: "prefix (calls w1 @ [Post tc ''/cards.json'' body]) (calls w2)"
    using createTargetCard_calls [of w1 tc body srv] ct by simp
  show "fst (migrateCard srv cfg sc tc sourceCard tb cm stats w) = fst (createTargetCard srv tc body w1)"
    by (simp add: migrateCard_def cd body [symmetric] ct Let_def split_beta split: sum.splits)
  show "prefix (calls w1 @ [Post tc ''/cards.json'' body])
           (calls (snd (snd (migrateCard srv cfg sc tc sourceCard tb cm stats w))))"
  proof (cases r)
    case (Inl err)
    with p2 show ?thesis by (simp add: migrateCard_def cd body [symmetric] ct)
  next
    case (Inr num)
    define tg where "tg = cardTags srv tc sourceCard (itoa num) stats1 w2"
    define w4 where "w4 = placeCard srv tc sourceCard (itoa num) cm (snd tg)"
    define w5 where "w5 = applyCardState srv tc sourceCard (itoa num) w4"
    define c6 where "c6 = cardComments srv cfg sc tc (getIntField sourceCard ''number'') (itoa num) (fst tg) w5"
    define c7 where "c7 = cardSteps srv cfg tc sourceCard (itoa num) (fst c6) (snd c6)"
    define c8 where "c8 = cardImage srv cfg sc tc sourceCard (itoa num) (fst c7) (snd c7)"
    have "grows w2 (snd tg)" unfolding tg_def by (rule cardTags_grows)
    moreover have "grows (snd tg) w4" unfolding w4_def by (rule placeCard_grows)
    moreover have "grows w4 w5" unfolding w5_def by (rule applyCardState_grows)
    moreover have "grows w5 (snd c6)" unfolding c6_def by (rule cardComments_grows)
    moreover have "grows (snd c6) (snd c7)" unfolding c7_def by (rule cardSteps_grows)
    moreover have "grows (snd c7) (snd c8)" unfolding c8_def by (rule cardImage_grows)
    ultimately have "grows w2 (snd c8)" by (blast intro: grows_trans)
    with p2 have "prefix (calls w1 @ [Post tc ''/cards.json'' body]) (calls (snd c8))"
      unfolding grows_def by (rule prefix_order.trans)
    moreover have "snd (snd (migrateCard srv cfg sc tc sourceCard tb cm stats w)) = snd c8"
      by (simp add: migrateCard_def cd body [symmetric] ct Inr Let_def split_beta
          tg_def w4_def w5_def c6_def c7_def c8_def)
    ultimately show ?thesis by simp
  qed
qed

text \<open>The description that a creation request carries.\<close>

definition sentDescription :: "json \<Rightarrow> string option" where
  "sentDescription body =
     (case body of
        JObj b \<Rightarrow>
          (case map_of b ''card'' of
             Some (JObj c) \<Rightarrow>
               (case map_of c ''description'' of Some (JStr d) \<Rightarrow> Some d | _ \<Rightarrow> None)
           | _ \<Rightarrow> None)
      | _ \<Rightarrow> None)"

lemma sentDescription_cardRequestBody:
  "sentDescription (cardRequestBody tb title description createdAt)
     = (if description = [] then None else Some description)"
  by (simp add: sentDescription_def cardRequestBody_def)

lemma migrateInlineAttachments_nonempty:
  assumes "migrateInlineAttachments srv cfg sc tc html w = (migratedDesc, n, w1)" and "n > 0"
  shows "migratedDesc \<noteq> []"
proof -
  have ne: "html \<noteq> []" using assms by (auto simp: migrateInlineAttachments_def)
  have "\<And>as r k v. r \<noteq> [] \<Longrightarrow> fst (migrateInlineLoop srv cfg sc tc as (r, k, v)) \<noteq> []"
  proof -
    fix as r k v
    show "r \<noteq> [] \<Longrightarrow> fst (migrateInlineLoop srv cfg sc tc as (r, k, v)) \<noteq> []"
    proof (induction as arbitrary: r k v)
      case Nil
      then show ?case by simp
    next
      case (Cons a as)
      from migrateInlineOne_cases [of srv cfg sc tc a r k v] Cons.prems
      obtain r1 k1 v1 where "migrateInlineOne srv cfg sc tc a (r, k, v) = (r1, k1, v1)" "r1 \<noteq> []"
        by (auto simp: replaceFirst_nonempty)
      with Cons.IH [of r1 k1 v1] show ?case by simp
    qed
  qed
  from this [OF ne, of "parseAttachments html" 0 w] assms ne show ?thesis
    by (auto simp: migrateInlineAttachments_def Let_def split: if_splits)
qed

text \<open>
  C10: with images enabled, the creation request of the card follows the calls of the
  inline-attachment migration and carries the migrated HTML of \<^verbatim>\<open>description_html\<close> as
  its description when the migration reports a count above zero, and the plain
  \<^verbatim>\<open>description\<close> field when the count is zero (the key is left out when that field is
  empty).
\<close>

theorem migrateCard_description:
  assumes "migrateBoardIncludeImages cfg"
    and "getStringField sourceCard ''description_html'' = html"
    and "migrateInlineAttachments srv cfg sc tc html w = (migratedDesc, n, w1)"
  shows "\<exists>body.
           prefix (calls w1 @ [Post tc ''/cards.json'' body])
             (calls (snd (snd (migrateCard srv cfg sc tc sourceCard tb cm stats w))))
           \<and> body = cardRequestBody tb (getStringField sourceCard ''title'')
                      (if n > 0 then migratedDesc else getStringField sourceCard ''description'')
                      (getStringField sourceCard ''created_at'')
           \<and> sentDescription body =
               (if n > 0 then Some migratedDesc
                else if getStringField sourceCard ''description'' = [] then None
                else Some (getStringField sourceCard ''description''))"
proof -
  define description where
    "description = (if n > 0 then migratedDesc else getStringField sourceCard ''description'')"
  define body where
    "body = cardRequestBody tb (getStringField sourceCard ''title'') description
              (getStringField sourceCard ''created_at'')"
  have cd: "cardDescription srv cfg sc tc sourceCard stats w =
              (description, if n > 0 then stats\<lparr>imagesMigrated := imagesMigrated stats + n\<rparr> else stats, w1)"
    unfolding description_def by (rule cardDescription_eq [OF assms])
  have "prefix (calls w1 @ [Post tc ''/cards.json'' body])
          (calls (snd (snd (migrateCard srv cfg sc tc sourceCard tb cm stats w))))"
    by (rule migrateCard_creation(2) [OF cd body_def])
  moreover have "sentDescription body =
               (if n > 0 then Some migratedDesc
                else if getStringField sourceCard ''description'' = [] then None
                else Some (getStringField sourceCard ''description''))"
    using migrateInlineAttachments_nonempty [OF assms(3)]
    by (simp add: body_def sentDescription_cardRequestBody description_def)
  ultimately show ?thesis unfolding body_def description_def by blast
qed

text \<open>
  C6 (as amended): when the download or the upload of one reference of the description
  fails, the creation request is still sent and its result is the result of the card;
  the count of migrated images is below the number of references and is what the
  statistics gain; the sgid of the failed reference remains in the migrated HTML,
  provided no other reference has an sgid that occurs inside it. The migrated HTML is the
  description that is sent only when the count is above zero: with a count of zero the
  plain \<^verbatim>\<open>description\<close> field is sent.
\<close>

theorem migrateCard_failed_attachment:
  assumes images: "migrateBoardIncludeImages cfg"
    and html: "getStringField sourceCard ''description_html'' = html"
    and f: "f \<in> set (parseAttachments html)"
    and fails: "attachmentFails srv cfg sc tc f"
    and others: "\<forall>a\<in>set (parseAttachments html). a \<noteq> f \<and> SGID a \<noteq> [] \<longrightarrow> \<not> sublist (SGID a) (SGID f)"
    and mi: "migrateInlineAttachments srv cfg sc tc html w = (migratedDesc, n, w1)"
  shows "(\<exists>body.
            prefix (calls w1 @ [Post tc ''/cards.json'' body])
              (calls (snd (snd (migrateCard srv cfg sc tc sourceCard tb cm stats w))))
            \<and> body = cardRequestBody tb (getStringField sourceCard ''title'')
                       (if n > 0 then migratedDesc else getStringField sourceCard ''description'')
                       (getStringField sourceCard ''created_at'')
            \<and> fst (migrateCard srv cfg sc tc sourceCard tb cm stats w)
                = fst (createTargetCard srv tc body w1)
            \<and> sentDescription body =
                (if n > 0 then Some migratedDesc
                 else if getStringField sourceCard ''description'' = [] then None
                 else Some (getStringField sourceCard ''description'')))
         \<and> 0 \<le> n \<and> n < int (length (parseAttachments html))
         \<and> fst (snd (cardDescription srv cfg sc tc sourceCard stats w))
             = (if n > 0 then stats\<lparr>imagesMigrated := imagesMigrated stats + n\<rparr> else stats)
         \<and> sublist (SGID f) migratedDesc"
proof -
  define description where
    "description = (if n > 0 then migratedDesc else getStringField sourceCard ''description'')"
  define body where
    "body = cardRequestBody tb (getStringField sourceCard ''title'') description
              (getStringField sourceCard ''created_at'')"
  have cd: "cardDescription srv cfg sc tc sourceCard stats w =
              (description, if n > 0 then stats\<lparr>imagesMigrated := imagesMigrated stats + n\<rparr> else stats, w1)"
    unfolding description_def by (rule cardDescription_eq [OF images html mi])
  have 1: "prefix (calls w1 @ [Post tc ''/cards.json'' body])
          (calls (snd (snd (migrateCard srv cfg sc tc sourceCard tb cm stats w))))"
    by (rule migrateCard_creation(2) [OF cd body_def])
  have 2: "fst (migrateCard srv cfg sc tc sourceCard tb cm stats w) = fst (createTargetCard srv tc body w1)"
    by (rule migrateCard_creation(1) [OF cd body_def])
  have 3: "sentDescription body =
               (if n > 0 then Some migratedDesc
                else if getStringField sourceCard ''description'' = [] then None
                else Some (getStringField sourceCard ''description''))"
    using migrateInlineAttachments_nonempty [OF mi]
    by (simp add: body_def sentDescription_cardRequestBody description_def)
  from f have pne: "parseAttachments html \<noteq> []" by auto
  then have hne: "html \<noteq> []" by auto
  from mi pne have loop: "migrateInlineLoop srv cfg sc tc (parseAttachments html) (html, 0, w) = (migratedDesc, n, w1)"
    by (simp add: migrateInlineAttachments_def)
  from migrateInlineLoop_count [OF fails, of "parseAttachments html" html 0 w] loop f
  have 4: "0 \<le> n" "n < int (length (parseAttachments html))" by auto
  have 5: "sublist (SGID f) migratedDesc"
  proof (cases "SGID f = []")
    case True
    then show ?thesis by simp
  next
    case False
    have q: "sublist (dq # SGID f @ [dq]) html" using False by (rule parseAttachments_SGID(2) [OF f])
    have nq: "\<forall>a\<in>set (parseAttachments html). dq \<notin> set (SGID a)"
      using parseAttachments_SGID(1) by blast
    from migrateInlineLoop_keeps [OF nq others fails q, of 0 w] loop
    have "sublist (dq # SGID f @ [dq]) migratedDesc" by simp
    then obtain p s where "migratedDesc = p @ (dq # SGID f @ [dq]) @ s" unfolding sublist_def by blast
    then have "migratedDesc = (p @ [dq]) @ SGID f @ (dq # s)" by simp
    then show ?thesis unfolding sublist_def by blast
  qed
  have 6: "body = cardRequestBody tb (getStringField sourceCard ''title'')
                       (if n > 0 then migratedDesc else getStringField sourceCard ''description'')
                       (getStringField sourceCard ''created_at'')"
    by (simp add: body_def description_def)
  have 7: "fst (snd (cardDescription srv cfg sc tc sourceCard stats w))
             = (if n > 0 then stats\<lparr>imagesMigrated := imagesMigrated stats + n\<rparr> else stats)"
    by (simp add: cd)
  from 1 2 3 6 have "\<exists>body.
            prefix (calls w1 @ [Post tc ''/cards.json'' body])
              (calls (snd (snd (migrateCard srv cfg sc tc sourceCard tb cm stats w))))
            \<and> body = cardRequestBody tb (getStringField sourceCard ''title'')
                       (if n > 0 then migratedDesc else getStringField sourceCard ''description'')
                       (getStringField sourceCard ''created_at'')
            \<and> fst (migrateCard srv cfg sc tc sourceCard tb cm stats w)
                = fst (createTargetCard srv tc body w1)
            \<and> sentDescription body =
                (if n > 0 then Some migratedDesc
                 else if getStringField sourceCard ''description'' = [] then None
                 else Some (getStringField sourceCard ''description''))"
    by blast
  with 4 5 7 show ?thesis by blast
qed

section \<open>Attachments on a concrete server\<close>

definition imageSettings :: settings where
  "imageSettings =
     \<lparr>migrateBoardFrom = ''src'', migrateBoardTo = ''tgt'', migrateBoardIncludeComments = False,
      migrateBoardIncludeSteps = False, migrateBoardIncludeImages = True,
      migrateBoardDryRun = False, sourceBoardID = ''b1'', cfgAPIURL = ''https://api'',
      requireAuth = None, tempPath = (\<lambda>name. ''/tmp/'' @ name)\<rparr>"

text \<open>
  A server for attachments: the downloads of the listed URLs fail, an upload returns an
  attachable sgid numbered by the calls made so far, and a card creation returns the
  number 101.
\<close>

definition attachmentServer :: "string list \<Rightarrow> server" where
  "attachmentServer failing =
     \<lparr>srvGet = (\<lambda>h c path. Inl ''not found''),
      srvGetWithPagination = (\<lambda>h c path. Inl ''not found''),
      srvPost = (\<lambda>h c path body.
                  if path = ''/cards.json'' then okResponse (JObj [(''number'', JNum 101)])
                  else okResponse JNull),
      srvPatch = (\<lambda>h c path body. okResponse JNull),
      srvFollowLocation = (\<lambda>h c location. Inr None),
      srvDownloadFile = (\<lambda>h c url dest. if url \<in> set failing then Some ''timeout'' else None),
      srvUploadFile = (\<lambda>h c path.
                        okResponse (JObj [(''attachable_sgid'', JStr (''T'' @ itoa (int (length h))))]))\<rparr>"

definition attachmentElement :: "string \<Rightarrow> string \<Rightarrow> string \<Rightarrow> string" where
  "attachmentElement sgid filename linkText =
     ''<action-text-attachment sgid='' @ [dq] @ sgid @ [dq] @ '' filename='' @ [dq] @ filename @ [dq]
     @ ''><a href='' @ [dq] @ ''/b/'' @ filename @ ''?disposition=attachment'' @ [dq] @ ''>''
     @ linkText @ ''</a></action-text-attachment>''"

definition parsedElement :: "int \<Rightarrow> string \<Rightarrow> string \<Rightarrow> Attachment" where
  "parsedElement i sgid filename =
     \<lparr>Index = i, Filename = filename, ContentType = [], Filesize = 0, Width = 0, Height = 0,
      DownloadURL = ''/b/'' @ filename @ ''?disposition=attachment'', SGID = sgid\<rparr>"

theorem migrateInlineOne_replaces_first_witness:
  "\<exists>result' w'.
     migrateInlineOne (attachmentServer []) imageSettings ''src'' ''tgt'' (parsedElement 1 ''S1'' ''a.png'')
       (attachmentElement ''S1'' ''a.png'' ''S1'', 0, emptyWorld) = (result', 0 + 1, w')
     \<and> ((\<not> sublist (SGID (parsedElement 1 ''S1'' ''a.png'')) (attachmentElement ''S1'' ''a.png'' ''S1'')
          \<and> result' = attachmentElement ''S1'' ''a.png'' ''S1'')
         \<or> (\<exists>before after.
               attachmentElement ''S1'' ''a.png'' ''S1''
                 = before @ SGID (parsedElement 1 ''S1'' ''a.png'') @ after
               \<and> result' = before @ ''T1'' @ after
               \<and> (\<forall>b' a'. attachmentElement ''S1'' ''a.png'' ''S1''
                              = b' @ SGID (parsedElement 1 ''S1'' ''a.png'') @ a'
                            \<longrightarrow> length before \<le> length b')))"
proof (rule migrateInlineOne_replaces_first
    [where resp = "\<lparr>Data = JObj [(''attachable_sgid'', JStr ''T1'')], Location = []\<rparr>"
       and uploadData = "[(''attachable_sgid'', JStr ''T1'')]"
       and tempFile = "attachmentTempFile imageSettings (parsedElement 1 ''S1'' ''a.png'')"])
  show "attachmentTempFile imageSettings (parsedElement 1 ''S1'' ''a.png'')
        = attachmentTempFile imageSettings (parsedElement 1 ''S1'' ''a.png'')" ..
  show "DownloadURL (parsedElement 1 ''S1'' ''a.png'') \<noteq> []" by (simp add: parsedElement_def)
  show "srvDownloadFile (attachmentServer []) (calls emptyWorld) ''src''
          (DownloadURL (parsedElement 1 ''S1'' ''a.png''))
          (attachmentTempFile imageSettings (parsedElement 1 ''S1'' ''a.png'')) = None"
    by (simp add: attachmentServer_def)
  show "srvUploadFile (attachmentServer [])
          (calls emptyWorld @ [DownloadFile ''src'' (DownloadURL (parsedElement 1 ''S1'' ''a.png''))
             (attachmentTempFile imageSettings (parsedElement 1 ''S1'' ''a.png''))])
          ''tgt'' (attachmentTempFile imageSettings (parsedElement 1 ''S1'' ''a.png''))
        = Inr \<lparr>Data = JObj [(''attachable_sgid'', JStr ''T1'')], Location = []\<rparr>"
    by code_simp
  show "Data \<lparr>Data = JObj [(''attachable_sgid'', JStr ''T1'')], Location = []\<rparr>
        = JObj [(''attachable_sgid'', JStr ''T1'')]" by simp
  show "''T1'' = (if getStringField [(''attachable_sgid'', JStr ''T1'')] ''attachable_sgid'' = []
                  then getStringField [(''attachable_sgid'', JStr ''T1'')] ''signed_id''
                  else getStringField [(''attachable_sgid'', JStr ''T1'')] ''attachable_sgid'')"
    by (simp add: getStringField_def)
  show "''T1'' \<noteq> []" by simp
  show "SGID (parsedElement 1 ''S1'' ''a.png'') \<noteq> []" by (simp add: parsedElement_def)
qed

text \<open>
  C5 as stated fails: an element whose link text repeats its sgid is migrated with the
  sgid of the attribute replaced and the second occurrence left as it was.
\<close>

theorem migrateInlineAttachments_second_occurrence_counterexample:
  "parseAttachments (attachmentElement ''S1'' ''a.png'' ''S1'') = [parsedElement 1 ''S1'' ''a.png'']
   \<and> fst (migrateInlineAttachments (attachmentServer []) imageSettings ''src'' ''tgt''
           (attachmentElement ''S1'' ''a.png'' ''S1'') emptyWorld)
      = attachmentElement ''T1'' ''a.png'' ''S1''
   \<and> fst (snd (migrateInlineAttachments (attachmentServer []) imageSettings ''src'' ''tgt''
           (attachmentElement ''S1'' ''a.png'' ''S1'') emptyWorld)) = 1
   \<and> sublist ''S1'' (attachmentElement ''T1'' ''a.png'' ''S1'')"
  by code_simp

definition twoReferences :: string where
  "twoReferences = attachmentElement ''S1'' ''a.png'' ''a'' @ ''<p>and</p>''
                   @ attachmentElement ''S2'' ''b.png'' ''b''"

definition exampleCard :: "string \<Rightarrow> (string \<times> json) list" where
  "exampleCard html =
     [(''number'', JNum 7), (''title'', JStr ''one''), (''description'', JStr ''see a.png''),
      (''description_html'', JStr html)]"

theorem migrateCard_description_witness:
  "\<exists>body.
     prefix (calls (snd (snd (migrateInlineAttachments (attachmentServer []) imageSettings ''src'' ''tgt''
                               twoReferences emptyWorld)))
             @ [Post ''tgt'' ''/cards.json'' body])
       (calls (snd (snd (migrateCard (attachmentServer []) imageSettings ''src'' ''tgt''
                          (exampleCard twoReferences) ''nb'' Map.empty newStats emptyWorld))))
     \<and> body = cardRequestBody ''nb'' ''one''
                (attachmentElement ''T1'' ''a.png'' ''a'' @ ''<p>and</p>''
                 @ attachmentElement ''T3'' ''b.png'' ''b'') []
     \<and> sentDescription body
         = Some (attachmentElement ''T1'' ''a.png'' ''a'' @ ''<p>and</p>''
                 @ attachmentElement ''T3'' ''b.png'' ''b'')"
proof -
  let ?X = "migrateInlineAttachments (attachmentServer []) imageSettings ''src'' ''tgt''
              twoReferences emptyWorld"
  have i: "migrateBoardIncludeImages imageSettings" by (simp add: imageSettings_def)
  have h: "getStringField (exampleCard twoReferences) ''description_html'' = twoReferences"
    by (simp add: exampleCard_def getStringField_def)
  have x: "?X = (fst ?X, fst (snd ?X), snd (snd ?X))" by simp
  have n: "fst (snd ?X) = 2" by code_simp
  have d: "fst ?X = attachmentElement ''T1'' ''a.png'' ''a'' @ ''<p>and</p>''
                    @ attachmentElement ''T3'' ''b.png'' ''b''" by code_simp
  have t: "getStringField (exampleCard twoReferences) ''title'' = ''one''"
    "getStringField (exampleCard twoReferences) ''created_at'' = []"
    by (simp_all add: exampleCard_def getStringField_def)
  from migrateCard_description [OF i h x, of "''nb''" Map.empty newStats]
  show ?thesis unfolding n d t by simp
qed

theorem migrateCard_failed_attachment_witness:
  "parseAttachments twoReferences = [parsedElement 1 ''S1'' ''a.png'', parsedElement 2 ''S2'' ''b.png'']
   \<and> attachmentFails (attachmentServer [''/b/a.png?disposition=attachment'']) imageSettings
        ''src'' ''tgt'' (parsedElement 1 ''S1'' ''a.png'')
   \<and> fst (snd (migrateInlineAttachments (attachmentServer [''/b/a.png?disposition=attachment''])
                  imageSettings ''src'' ''tgt'' twoReferences emptyWorld)) = 1
   \<and> fst (migrateInlineAttachments (attachmentServer [''/b/a.png?disposition=attachment''])
             imageSettings ''src'' ''tgt'' twoReferences emptyWorld)
      = attachmentElement ''S1'' ''a.png'' ''a'' @ ''<p>and</p>'' @ attachmentElement ''T2'' ''b.png'' ''b''
   \<and> sublist ''S1'' (fst (migrateInlineAttachments (attachmentServer [''/b/a.png?disposition=attachment''])
                           imageSettings ''src'' ''tgt'' twoReferences emptyWorld))
   \<and> imagesMigrated (fst (snd (cardDescription (attachmentServer [''/b/a.png?disposition=attachment''])
                                  imageSettings ''src'' ''tgt'' (exampleCard twoReferences) newStats
                                  emptyWorld))) = 1
   \<and> fst (migrateCard (attachmentServer [''/b/a.png?disposition=attachment'']) imageSettings ''src'' ''tgt''
            (exampleCard twoReferences) ''nb'' Map.empty newStats emptyWorld) = Inr 101
   \<and> (\<exists>body.
         prefix (calls (snd (snd (migrateInlineAttachments
                                   (attachmentServer [''/b/a.png?disposition=attachment''])
                                   imageSettings ''src'' ''tgt'' twoReferences emptyWorld)))
                 @ [Post ''tgt'' ''/cards.json'' body])
           (calls (snd (snd (migrateCard (attachmentServer [''/b/a.png?disposition=attachment''])
                              imageSettings ''src'' ''tgt'' (exampleCard twoReferences) ''nb''
                              Map.empty newStats emptyWorld))))
         \<and> sentDescription body
             = Some (attachmentElement ''S1'' ''a.png'' ''a'' @ ''<p>and</p>''
                     @ attachmentElement ''T2'' ''b.png'' ''b''))"
proof -
  let ?S = "attachmentServer [''/b/a.png?disposition=attachment'']"
  let ?f = "parsedElement 1 ''S1'' ''a.png''"
  let ?X = "migrateInlineAttachments ?S imageSettings ''src'' ''tgt'' twoReferences emptyWorld"
  have i: "migrateBoardIncludeImages imageSettings" by (simp add: imageSettings_def)
  have h: "getStringField (exampleCard twoReferences) ''description_html'' = twoReferences"
    by (simp add: exampleCard_def getStringField_def)
  have p: "parseAttachments twoReferences = [?f, parsedElement 2 ''S2'' ''b.png'']" by code_simp
  have f: "?f \<in> set (parseAttachments twoReferences)" unfolding p by simp
  have fails: "attachmentFails ?S imageSettings ''src'' ''tgt'' ?f"
    by (simp add: attachmentFails_def attachmentServer_def parsedElement_def)
  have ns: "\<not> sublist ''S2'' ''S1''" by code_simp
  have others: "\<forall>a\<in>set (parseAttachments twoReferences).
                  a \<noteq> ?f \<and> SGID a \<noteq> [] \<longrightarrow> \<not> sublist (SGID a) (SGID ?f)"
    unfolding p using ns by (simp add: parsedElement_def)
  have x: "?X = (fst ?X, fst (snd ?X), snd (snd ?X))" by simp
  have n: "fst (snd ?X) = 1" by code_simp
  have d: "fst ?X = attachmentElement ''S1'' ''a.png'' ''a'' @ ''<p>and</p>''
                    @ attachmentElement ''T2'' ''b.png'' ''b''" by code_simp
  have c: "fst (createTargetCard ?S ''tgt''
                 (cardRequestBody ''nb'' ''one''
                    (attachmentElement ''S1'' ''a.png'' ''a'' @ ''<p>and</p>''
                     @ attachmentElement ''T2'' ''b.png'' ''b'') []) (snd (snd ?X))) = Inr 101"
    by code_simp
  have s: "SGID ?f = ''S1''" by (simp add: parsedElement_def)
  have t: "getStringField (exampleCard twoReferences) ''title'' = ''one''"
    "getStringField (exampleCard twoReferences) ''created_at'' = []"
    by (simp_all add: exampleCard_def getStringField_def)
  from migrateCard_failed_attachment [OF i h f fails others x, of "''nb''" Map.empty newStats]
  obtain body where
    b1: "prefix (calls (snd (snd ?X)) @ [Post ''tgt'' ''/cards.json'' body])
              (calls (snd (snd (migrateCard ?S imageSettings ''src'' ''tgt'' (exampleCard twoReferences)
                                 ''nb'' Map.empty newStats emptyWorld))))"
    and b2: "body = cardRequestBody ''nb'' ''one'' (fst ?X) []"
    and b3: "fst (migrateCard ?S imageSettings ''src'' ''tgt'' (exampleCard twoReferences)
                     ''nb'' Map.empty newStats emptyWorld)
                = fst (createTargetCard ?S ''tgt'' body (snd (snd ?X)))"
    and b4: "sentDescription body = Some (fst ?X)"
    and b5: "fst (snd (cardDescription ?S imageSettings ''src'' ''tgt'' (exampleCard twoReferences)
                        newStats emptyWorld))
             = newStats\<lparr>imagesMigrated := imagesMigrated newStats + 1\<rparr>"
    and b6: "sublist ''S1'' (fst ?X)"
    unfolding n s t by auto
  have 1: "imagesMigrated (fst (snd (cardDescription ?S imageSettings ''src'' ''tgt''
                                  (exampleCard twoReferences) newStats emptyWorld))) = 1"
    unfolding b5 by (simp add: newStats_def)
  have 2: "fst (migrateCard ?S imageSettings ''src'' ''tgt'' (exampleCard twoReferences) ''nb''
                  Map.empty newStats emptyWorld) = Inr 101"
    unfolding b3 b2 d by (rule c)
  from b1 b4 have 3: "\<exists>body.
         prefix (calls (snd (snd ?X)) @ [Post ''tgt'' ''/cards.json'' body])
           (calls (snd (snd (migrateCard ?S imageSettings ''src'' ''tgt'' (exampleCard twoReferences)
                              ''nb'' Map.empty newStats emptyWorld))))
         \<and> sentDescription body
             = Some (attachmentElement ''S1'' ''a.png'' ''a'' @ ''<p>and</p>''
                     @ attachmentElement ''T2'' ''b.png'' ''b'')"
    unfolding d by blast
  from p fails n d b6 1 2 3 show ?thesis by blast
qed

text \<open>
  C6 as stated fails: when the only reference fails, the count is zero, the card is
  created with the plain description, and the sgid is not in the text that is sent.
\<close>

theorem migrateCard_only_reference_counterexample:
  "parseAttachments (attachmentElement ''S1'' ''a.png'' ''a'') = [parsedElement 1 ''S1'' ''a.png'']
   \<and> srvDownloadFile (attachmentServer [''/b/a.png?disposition=attachment'']) [] ''src''
        ''/b/a.png?disposition=attachment''
        (attachmentTempFile imageSettings (parsedElement 1 ''S1'' ''a.png'')) = Some ''timeout''
   \<and> fst (migrateCard (attachmentServer [''/b/a.png?disposition=attachment'']) imageSettings
            ''src'' ''tgt'' (exampleCard (attachmentElement ''S1'' ''a.png'' ''a'')) ''nb'' Map.empty
            newStats emptyWorld) = Inr 101
   \<and> calls (snd (snd (migrateCard (attachmentServer [''/b/a.png?disposition=attachment''])
                        imageSettings ''src'' ''tgt''
                        (exampleCard (attachmentElement ''S1'' ''a.png'' ''a'')) ''nb'' Map.empty
                        newStats emptyWorld)))
      = [DownloadFile ''src'' ''/b/a.png?disposition=attachment''
           (attachmentTempFile imageSettings (parsedElement 1 ''S1'' ''a.png'')),
         Post ''tgt'' ''/cards.json'' (cardRequestBody ''nb'' ''one'' ''see a.png'' [])]
   \<and> sentDescription (cardRequestBody ''nb'' ''one'' ''see a.png'' []) = Some ''see a.png''
   \<and> \<not> sublist ''S1'' ''see a.png''"
  by code_simp

section \<open>The dry run\<close>

text \<open>A column that the migration clones: an object that neither test skips.\<close>

definition realColumn :: "json \<Rightarrow> bool" where
  "realColumn col = (case col of JObj colMap \<Rightarrow> \<not> kindNotReal colMap \<and> \<not> pseudoFlag colMap | _ \<Rightarrow> False)"

lemma countRealColumns_filter:
  "countRealColumns columns = int (length (filter realColumn columns))"
proof (induction columns)
  case Nil
  show ?case by simp
next
  case (Cons col columns)
  then show ?case by (cases col) (simp_all add: realColumn_def)
qed

text \<open>
  The four reads of a run, in the order in which they are made.
\<close>

definition identityCall :: "settings \<Rightarrow> call" where
  "identityCall cfg = Get [] (cfgAPIURL cfg @ ''/my/identity.json'')"

definition boardCall :: "settings \<Rightarrow> call" where
  "boardCall cfg = Get (migrateBoardFrom cfg) (''/boards/'' @ sourceBoardID cfg @ ''.json'')"

definition columnsCall :: "settings \<Rightarrow> call" where
  "columnsCall cfg = Get (migrateBoardFrom cfg) (''/boards/'' @ sourceBoardID cfg @ ''/columns.json'')"

definition cardsCall :: "settings \<Rightarrow> call" where
  "cardsCall cfg = GetWithPagination (migrateBoardFrom cfg) (''/cards.json?board_ids[]='' @ sourceBoardID cfg)"

text \<open>
  C4: a dry run whose access check and three fetches succeed makes exactly these four
  calls, none of them mutating, returns the name of the board with the numbers of
  columns and cards, and reports on the error stream the number of real columns as the
  columns to create and the length of the card list as the cards to migrate.
\<close>

theorem runMigrateBoard_dry_run:
  assumes auth: "requireAuth cfg = None"
    and flags: "migrateBoardFrom cfg \<noteq> []" "migrateBoardTo cfg \<noteq> []"
      "migrateBoardFrom cfg \<noteq> migrateBoardTo cfg"
    and dry: "migrateBoardDryRun cfg"
    and identity: "srvGet srv (calls w) [] (cfgAPIURL cfg @ ''/my/identity.json'') = Inr ri"
      "Data ri = JObj di" "map_of di ''accounts'' = Some (JArr accounts)"
      "hasAccess accounts (migrateBoardFrom cfg)" "hasAccess accounts (migrateBoardTo cfg)"
    and board: "srvGet srv (calls w @ [identityCall cfg]) (migrateBoardFrom cfg)
                  (''/boards/'' @ sourceBoardID cfg @ ''.json'') = Inr rb"
      "Data rb = JObj sourceBoard"
    and columns: "srvGet srv (calls w @ [identityCall cfg, boardCall cfg]) (migrateBoardFrom cfg)
                    (''/boards/'' @ sourceBoardID cfg @ ''/columns.json'') = Inr rc"
      "Data rc = JArr sourceColumns"
    and cards: "srvGetWithPagination srv (calls w @ [identityCall cfg, boardCall cfg, columnsCall cfg])
                  (migrateBoardFrom cfg) (''/cards.json?board_ids[]='' @ sourceBoardID cfg) = Inr rk"
      "Data rk = JArr sourceCards"
  shows "fst (runMigrateBoard srv cfg w)
           = Inr (DryRunOutput (getStringField sourceBoard ''name'') (int (length sourceColumns))
                    (int (length sourceCards)) (migrateBoardFrom cfg) (migrateBoardTo cfg))
         \<and> calls (snd (runMigrateBoard srv cfg w))
             = calls w @ [identityCall cfg, boardCall cfg, columnsCall cfg, cardsCall cfg]
         \<and> \<not> list_ex mutating (drop (length (calls w)) (calls (snd (runMigrateBoard srv cfg w))))
         \<and> (''Columns to create: '' @ itoa (int (length (filter realColumn sourceColumns))) @ [nl])
             \<in> set (stderr (snd (runMigrateBoard srv cfg w)))
         \<and> (''Cards to migrate: '' @ itoa (int (length sourceCards)) @ [nl])
             \<in> set (stderr (snd (runMigrateBoard srv cfg w)))"
proof -
  define w1 where "w1 = record_call (identityCall cfg) (logf (''Verifying access to accounts...'' @ [nl]) w)"
  have v: "verifyAccountAccess srv (cfgAPIURL cfg) (migrateBoardFrom cfg) (migrateBoardTo cfg)
             (logf (''Verifying access to accounts...'' @ [nl]) w) = (None, w1)"
    using identity by (simp add: verifyAccountAccess_granted [where resp = ri and data = di and accounts = accounts] w1_def identityCall_def)
  define w2 where "w2 = record_call (boardCall cfg) (logf (''Fetching source board...'' @ [nl]) w1)"
  have b: "getBoard srv (migrateBoardFrom cfg) (sourceBoardID cfg)
             (logf (''Fetching source board...'' @ [nl]) w1) = (Inr sourceBoard, w2)"
    using board by (simp add: getBoard_def clientGet_def w1_def w2_def boardCall_def)
  define w3 where "w3 = record_call (columnsCall cfg) (logf (''Fetching source columns...'' @ [nl])
                          (logf (''Source board: '' @ getStringField sourceBoard ''name'' @ [nl]) w2))"
  have c: "getColumns srv (migrateBoardFrom cfg) (sourceBoardID cfg)
             (logf (''Fetching source columns...'' @ [nl])
                (logf (''Source board: '' @ getStringField sourceBoard ''name'' @ [nl]) w2))
           = (Inr sourceColumns, w3)"
    using columns by (simp add: getColumns_def clientGet_def w1_def w2_def w3_def columnsCall_def)
  define w4 where "w4 = record_call (cardsCall cfg) (logf (''Fetching source cards...'' @ [nl]) w3)"
  have k: "getAllCards srv (migrateBoardFrom cfg) (sourceBoardID cfg)
             (logf (''Fetching source cards...'' @ [nl]) w3) = (Inr sourceCards, w4)"
    using cards by (simp add: getAllCards_def clientGetWithPagination_def w1_def w2_def w3_def w4_def cardsCall_def)
  define w5 where "w5 = logf (''Found '' @ itoa (int (length sourceCards)) @ '' cards to migrate'' @ [nl]) w4"
  have run: "runMigrateBoard srv cfg w
           = (Inr (DryRunOutput (getStringField sourceBoard ''name'') (int (length sourceColumns))
                    (int (length sourceCards)) (migrateBoardFrom cfg) (migrateBoardTo cfg)),
              printDryRunSummary cfg (getStringField sourceBoard ''name'') sourceColumns sourceCards w5)"
    unfolding runMigrateBoard_def Let_def using auth flags dry
    by (simp only: v b c k w5_def [symmetric] prod.case sum.case option.case if_True if_False
        refl simp_thms)
  have calls5: "calls w5 = calls w @ [identityCall cfg, boardCall cfg, columnsCall cfg, cardsCall cfg]"
    by (simp add: w5_def w4_def w3_def w2_def w1_def)
  have pc: "\<And>v. calls (printDryRunSummary cfg (getStringField sourceBoard ''name'') sourceColumns sourceCards v) = calls v"
    by (simp add: printDryRunSummary_def Let_def)
  have ps: "\<And>v. (''Columns to create: '' @ itoa (countRealColumns sourceColumns) @ [nl])
             \<in> set (stderr (printDryRunSummary cfg (getStringField sourceBoard ''name'') sourceColumns sourceCards v))
           \<and> (''Cards to migrate: '' @ itoa (int (length sourceCards)) @ [nl])
             \<in> set (stderr (printDryRunSummary cfg (getStringField sourceBoard ''name'') sourceColumns sourceCards v))"
    by (simp add: printDryRunSummary_def Let_def)
  have nm: "\<not> list_ex mutating [identityCall cfg, boardCall cfg, columnsCall cfg, cardsCall cfg]"
    by (simp add: identityCall_def boardCall_def columnsCall_def cardsCall_def)
  show ?thesis
    using ps [of w5] nm
    by (simp add: run pc calls5 countRealColumns_filter)
qed

section \<open>What aborts the run\<close>



















section \<open>The card mapping\<close>

text \<open>The part of the statistics that the card loop itself writes.\<close>

definition sameCards :: "migrationStats \<Rightarrow> migrationStats \<Rightarrow> bool" where
  "sameCards s s' = (cardMapping s' = cardMapping s \<and> cardsCreated s' = cardsCreated s)"

lemma sameCards_refl [simp]: "sameCards s s"
  by (simp add: sameCards_def)











text \<open>The cards that were created: source number and target number.\<close>

definition createdCards :: "(int \<times> (string + int)) list \<Rightarrow> (int \<times> int) list" where
  "createdCards outcomes =
     List.map_filter (\<lambda>(k, r). case r of Inr t \<Rightarrow> Some (k, t) | Inl e \<Rightarrow> None) outcomes"

lemma createdCards_simps [simp]:
  "createdCards [] = []"
  "createdCards ((k, Inr t) # os) = (k, t) # createdCards os"
  "createdCards ((k, Inl e) # os) = createdCards os"
  by (simp_all add: createdCards_def map_filter_simps)






section \<open>A board on a concrete server\<close>

text \<open>
  A board: four columns of which two are real, and three cards, the first with a tag,
  a column and a closed status.
\<close>

definition sprintBoard :: "(string \<times> json) list" where
  "sprintBoard = [(''id'', JStr ''b1''), (''name'', JStr ''Sprint 7'')]"

definition sprintColumns :: "json list" where
  "sprintColumns =
     [JObj [(''id'', JStr ''c1''), (''name'', JStr ''Backlog''), (''kind'', JStr ''real'')],
      JObj [(''id'', JStr ''c2''), (''name'', JStr ''Not Now''), (''pseudo'', JBool True)],
      JObj [(''id'', JStr ''c3''), (''name'', JStr ''In Progress'')],
      JObj [(''id'', JStr ''c4''), (''name'', JStr ''Done''), (''kind'', JStr ''closed'')]]"

definition cardOne :: "(string \<times> json) list" where
  "cardOne = [(''number'', JNum 7), (''title'', JStr ''one''), (''column_id'', JStr ''c1''),
              (''status'', JStr ''closed''), (''tags'', JArr [JStr ''urgent''])]"

definition sprintCards :: "json list" where
  "sprintCards =
     [JObj cardOne,
      JObj [(''number'', JNum 8), (''title'', JStr ''two''), (''golden'', JBool True)],
      JObj [(''number'', JNum 9), (''title'', JStr ''three''),
            (''column'', JObj [(''id'', JStr ''c3'')])]]"

definition cardPosts :: "call list \<Rightarrow> nat" where
  "cardPosts h = length (filter (\<lambda>c. case c of Post a p b \<Rightarrow> p = ''/cards.json'' | _ \<Rightarrow> False) h)"

text \<open>
  A server that holds the board for the accounts \<^verbatim>\<open>src\<close> and \<^verbatim>\<open>tgt\<close>. It rejects the
  creation of the columns named in \<open>failingColumns\<close>, the posts to the paths in
  \<open>failingPaths\<close>, and the creation of a card when the number of creations asked before
  is in \<open>failingCards\<close>; the cards are numbered from 101 by the creations asked.
\<close>

definition boardServer :: "string list \<Rightarrow> string list \<Rightarrow> nat list \<Rightarrow> server" where
  "boardServer failingColumns failingPaths failingCards =
     \<lparr>srvGet = (\<lambda>h c path.
         if path = ''https://api/my/identity.json'' then
           okResponse (JObj [(''accounts'', JArr [JObj [(''slug'', JStr ''/src'')],
                                                 JObj [(''slug'', JStr ''/tgt'')]])])
         else if path = ''/boards/b1.json'' then okResponse (JObj sprintBoard)
         else if path = ''/boards/b1/columns.json'' then okResponse (JArr sprintColumns)
         else Inl ''not found''),
      srvGetWithPagination = (\<lambda>h c path.
         if path = ''/cards.json?board_ids[]=b1'' then okResponse (JArr sprintCards)
         else Inl ''not found''),
      srvPost = (\<lambda>h c path body.
         if path \<in> set failingPaths then Inl ''rejected''
         else if path = ''/boards.json'' then okResponse (JObj [(''id'', JStr ''nb'')])
         else if path = ''/boards/nb/columns.json'' then
           (case body of
              JObj [(k, JObj ((n, JStr name) # r))] \<Rightarrow>
                if name \<in> set failingColumns then Inl ''rejected''
                else okResponse (JObj [(''id'', JStr (''t-'' @ name))])
            | _ \<Rightarrow> Inl ''bad request'')
         else if path = ''/cards.json'' then
           (if cardPosts h \<in> set failingCards then Inl ''rejected''
            else okResponse (JObj [(''number'', JNum (101 + of_nat (cardPosts h)))]))
         else okResponse JNull),
      srvPatch = (\<lambda>h c path body. okResponse JNull),
      srvFollowLocation = (\<lambda>h c location. Inr None),
      srvDownloadFile = (\<lambda>h c url dest. None),
      srvUploadFile = (\<lambda>h c path. okResponse JNull)\<rparr>"

definition boardSettings :: "bool \<Rightarrow> settings" where
  "boardSettings dryRun =
     \<lparr>migrateBoardFrom = ''src'', migrateBoardTo = ''tgt'', migrateBoardIncludeComments = False,
      migrateBoardIncludeSteps = False, migrateBoardIncludeImages = False,
      migrateBoardDryRun = dryRun, sourceBoardID = ''b1'', cfgAPIURL = ''https://api'',
      requireAuth = None, tempPath = (\<lambda>name. ''/tmp/'' @ name)\<rparr>"



theorem runMigrateBoard_dry_run_witness:
  "fst (runMigrateBoard (boardServer [] [] []) (boardSettings True) emptyWorld)
     = Inr (DryRunOutput (getStringField sprintBoard ''name'') (int (length sprintColumns))
              (int (length sprintCards)) (migrateBoardFrom (boardSettings True))
              (migrateBoardTo (boardSettings True)))
   \<and> calls (snd (runMigrateBoard (boardServer [] [] []) (boardSettings True) emptyWorld))
       = calls emptyWorld @ [identityCall (boardSettings True), boardCall (boardSettings True),
                             columnsCall (boardSettings True), cardsCall (boardSettings True)]
   \<and> \<not> list_ex mutating (drop (length (calls emptyWorld))
                             (calls (snd (runMigrateBoard (boardServer [] [] []) (boardSettings True)
                                            emptyWorld))))
   \<and> (''Columns to create: '' @ itoa (int (length (filter realColumn sprintColumns))) @ [nl])
       \<in> set (stderr (snd (runMigrateBoard (boardServer [] [] []) (boardSettings True) emptyWorld)))
   \<and> (''Cards to migrate: '' @ itoa (int (length sprintCards)) @ [nl])
       \<in> set (stderr (snd (runMigrateBoard (boardServer [] [] []) (boardSettings True) emptyWorld)))
   \<and> length sprintColumns = 4 \<and> filter realColumn sprintColumns = [sprintColumns ! 0, sprintColumns ! 2]
   \<and> itoa (int (length (filter realColumn sprintColumns))) = ''2''
   \<and> itoa (int (length sprintCards)) = ''3''
   \<and> getStringField sprintBoard ''name'' = ''Sprint 7''"
proof -
  let ?accounts = "[JObj [(''slug'', JStr ''/src'')], JObj [(''slug'', JStr ''/tgt'')]]"
  have cfg: "requireAuth (boardSettings True) = None" "migrateBoardFrom (boardSettings True) \<noteq> []"
    "migrateBoardTo (boardSettings True) \<noteq> []"
    "migrateBoardFrom (boardSettings True) \<noteq> migrateBoardTo (boardSettings True)"
    "migrateBoardDryRun (boardSettings True)"
    by (simp_all add: boardSettings_def)
  have i: "srvGet (boardServer [] [] []) (calls emptyWorld) [] (cfgAPIURL (boardSettings True) @ ''/my/identity.json'')
           = Inr \<lparr>Data = JObj [(''accounts'', JArr ?accounts)], Location = []\<rparr>"
    by code_simp
  have a: "hasAccess ?accounts (migrateBoardFrom (boardSettings True))"
    "hasAccess ?accounts (migrateBoardTo (boardSettings True))" by code_simp+
  have b: "srvGet (boardServer [] [] []) (calls emptyWorld @ [identityCall (boardSettings True)])
             (migrateBoardFrom (boardSettings True))
             (''/boards/'' @ sourceBoardID (boardSettings True) @ ''.json'')
           = Inr \<lparr>Data = JObj sprintBoard, Location = []\<rparr>"
    by code_simp
  have c: "srvGet (boardServer [] [] [])
             (calls emptyWorld @ [identityCall (boardSettings True), boardCall (boardSettings True)])
             (migrateBoardFrom (boardSettings True))
             (''/boards/'' @ sourceBoardID (boardSettings True) @ ''/columns.json'')
           = Inr \<lparr>Data = JArr sprintColumns, Location = []\<rparr>"
    by code_simp
  have k: "srvGetWithPagination (boardServer [] [] [])
             (calls emptyWorld @ [identityCall (boardSettings True), boardCall (boardSettings True),
                                  columnsCall (boardSettings True)])
             (migrateBoardFrom (boardSettings True))
             (''/cards.json?board_ids[]='' @ sourceBoardID (boardSettings True))
           = Inr \<lparr>Data = JArr sprintCards, Location = []\<rparr>"
    by code_simp
  have d: "Data \<lparr>Data = JObj [(''accounts'', JArr ?accounts)], Location = []\<rparr>
             = JObj [(''accounts'', JArr ?accounts)]"
    "map_of [(''accounts'', JArr ?accounts)] ''accounts'' = Some (JArr ?accounts)"
    "Data \<lparr>Data = JObj sprintBoard, Location = []\<rparr> = JObj sprintBoard"
    "Data \<lparr>Data = JArr sprintColumns, Location = []\<rparr> = JArr sprintColumns"
    "Data \<lparr>Data = JArr sprintCards, Location = []\<rparr> = JArr sprintCards"
    by simp_all
  note t = runMigrateBoard_dry_run [OF cfg i d(1) d(2) a b d(3) c d(4) k d(5)]
  have e: "length sprintColumns = 4" "filter realColumn sprintColumns = [sprintColumns ! 0, sprintColumns ! 2]"
    "itoa (int (length (filter realColumn sprintColumns))) = ''2''"
    "itoa (int (length sprintCards)) = ''3''"
    "getStringField sprintBoard ''name'' = ''Sprint 7''"
    by code_simp+
  from t e show ?thesis by blast
qed


end
